theory Spec2Isabelle
  imports Complex_Main "HOL-Library.Log_Nat"
begin

section \<open>QuidWise: the UK tax calculator\<close>

text \<open>
  A shallow embedding of \<^verbatim>\<open>tools/tax_calculator.py\<close> and of the classes of
  \<^verbatim>\<open>models/schemas.py\<close> it uses, twice. In the first model Python's \<^verbatim>\<open>float\<close> is
  idealised as \<open>real\<close> and the arithmetic is exact. In the second, whose names end
  in \<open>_fl\<close>, every arithmetic operation of the source is followed by a rounding
  \<open>rnd\<close>; with \<open>rd\<close>, the rounding of binary64, for \<open>rnd\<close> it is the arithmetic
  of Python's doubles, and with the identity it is the first model. Every
  \<^verbatim>\<open>raise\<close>, failed attribute read, failed subscript and failed comparison of
  the source is a value \<open>Inl e\<close> of the result.
\<close>

subsection \<open>Errors\<close>

datatype error =
    ValueError string
  | AttributeError string
  | KeyError string
  | IndexError
  | TypeError

subsection \<open>models/schemas.py\<close>

datatype StudentLoanPlan = PLAN_1 | PLAN_2 | PLAN_4 | PLAN_5 | POSTGRADUATE

text \<open>The member's \<^verbatim>\<open>.value\<close>.\<close>

fun StudentLoanPlan_value :: "StudentLoanPlan \<Rightarrow> string" where
  "StudentLoanPlan_value PLAN_1 = ''plan_1''"
| "StudentLoanPlan_value PLAN_2 = ''plan_2''"
| "StudentLoanPlan_value PLAN_4 = ''plan_4''"
| "StudentLoanPlan_value PLAN_5 = ''plan_5''"
| "StudentLoanPlan_value POSTGRADUATE = ''postgraduate''"

definition StudentLoanPlan_members :: "StudentLoanPlan list" where
  "StudentLoanPlan_members = [PLAN_1, PLAN_2, PLAN_4, PLAN_5, POSTGRADUATE]"

text \<open>
  The message of the ValueError that the enum raises for a string that is no
  member's value: the string between two apostrophes (character 39), then
  \<^verbatim>\<open> is not a valid StudentLoanPlan\<close>.
\<close>

definition not_a_valid_plan :: "string \<Rightarrow> string" where
  "not_a_valid_plan s =
     [char_of (39::nat)] @ s @ [char_of (39::nat)] @ '' is not a valid StudentLoanPlan''"

text \<open>\<^verbatim>\<open>StudentLoanPlan(s)\<close>: the enum looked up by value.\<close>

definition StudentLoanPlan_of_value :: "string \<Rightarrow> error + StudentLoanPlan" where
  "StudentLoanPlan_of_value s =
     (case find (\<lambda>p. StudentLoanPlan_value p = s) StudentLoanPlan_members of
        None \<Rightarrow> Inl (ValueError (not_a_valid_plan s))
      | Some p \<Rightarrow> Inr p)"

text \<open>
  \<^verbatim>\<open>class TaxInput(BaseModel)\<close>, lines 57 to 66: the names of the declared fields,
  in the order of the class body.
\<close>

definition TaxInput_fields :: "string list" where
  "TaxInput_fields =
     [''gross_salary'', ''student_loan_plan'', ''has_postgraduate_loan'',
      ''pension_contribution_percent'', ''salary_sacrifice_pension'', ''bonus'',
      ''dividend_income'', ''rental_income'']"

text \<open>
  The attributes that \<^verbatim>\<open>calculate\<close> and \<^verbatim>\<open>_calculate_marginal_rate\<close> read off
  their argument \<^verbatim>\<open>tax_input\<close>, in the order of their first read (lines 20, 22,
  24, 32, 39, 57, 61).
\<close>

definition calculate_reads :: "string list" where
  "calculate_reads =
     [''gross_salary'', ''bonus'', ''pension_contribution_percent'',
      ''salary_sacrifice_pension'', ''is_secondary_job'', ''student_loan_plan'',
      ''has_postgraduate_loan'']"

text \<open>
  An object handed to \<^verbatim>\<open>calculate\<close> as \<^verbatim>\<open>tax_input\<close>. The first eight fields are
  the declared fields of class TaxInput. \<open>is_secondary_job\<close> is the attribute of that
  name, which the calculator reads and the class does not declare: \<open>None\<close> when the
  object has no such attribute (reading it raises AttributeError), \<open>Some b\<close> when it
  has one, with value \<open>b\<close>.
\<close>

record tax_input =
  gross_salary :: real
  student_loan_plan :: "StudentLoanPlan option"
  has_postgraduate_loan :: bool
  pension_contribution_percent :: real
  salary_sacrifice_pension :: bool
  bonus :: real
  dividend_income :: real
  rental_income :: real
  is_secondary_job :: "bool option"

text \<open>
  \<^verbatim>\<open>TaxInput(gross_salary=..., ..., is_secondary_job=...)\<close>: the constructor of the
  pydantic model. A keyword that names no declared field is dropped (pydantic's
  default \<^verbatim>\<open>extra='ignore'\<close>), so the last argument, the keyword
  \<^verbatim>\<open>is_secondary_job\<close> (\<open>None\<close> when the caller does not pass it), leaves no
  attribute on the instance.
\<close>

definition TaxInput ::
  "real \<Rightarrow> StudentLoanPlan option \<Rightarrow> bool \<Rightarrow> real \<Rightarrow> bool \<Rightarrow> real \<Rightarrow> real \<Rightarrow> real \<Rightarrow>
   bool option \<Rightarrow> tax_input" where
  "TaxInput gross_salary' student_loan_plan' has_postgraduate_loan'
       pension_contribution_percent' salary_sacrifice_pension' bonus'
       dividend_income' rental_income' is_secondary_job_kw =
     \<lparr> gross_salary = gross_salary',
       student_loan_plan = student_loan_plan',
       has_postgraduate_loan = has_postgraduate_loan',
       pension_contribution_percent = pension_contribution_percent',
       salary_sacrifice_pension = salary_sacrifice_pension',
       bonus = bonus',
       dividend_income = dividend_income',
       rental_income = rental_income',
       is_secondary_job =
         (if ''is_secondary_job'' \<in> set TaxInput_fields then is_secondary_job_kw else None) \<rparr>"

text \<open>
  \<^verbatim>\<open>class TaxBreakdown(BaseModel)\<close>, lines 69 to 97. The keyword
  \<^verbatim>\<open>is_secondary_job\<close> that \<^verbatim>\<open>calculate\<close> passes to the constructor (line 102)
  names no declared field and is dropped.
\<close>

record TaxBreakdown =
  gross_income :: real
  taxable_income :: real
  personal_allowance_used :: real
  income_tax_basic :: real
  income_tax_higher :: real
  income_tax_additional :: real
  total_income_tax :: real
  ni_contributions :: real
  student_loan_repayment :: real
  postgraduate_loan_repayment :: real
  pension_contribution :: real
  pension_tax_relief :: real
  total_deductions :: real
  net_annual_income :: real
  net_monthly_income :: real
  effective_tax_rate :: real
  marginal_tax_rate :: real

subsection \<open>The rate table\<close>

text \<open>
  \<^verbatim>\<open>self.rates\<close>, the document loaded from \<^verbatim>\<open>data/tax_rates_2025_26.json\<close>. The
  file is not part of the sources; the calculator is modelled over any table of
  the shape it subscripts. A band's \<^verbatim>\<open>max\<close> is \<open>None\<close> for JSON \<^verbatim>\<open>null\<close>.
\<close>

record band =
  band_name :: string
  band_min :: real
  band_max :: "real option"
  band_rate :: real

record loan_rates =
  threshold :: real
  loan_rate :: real

record rates =
  personal_allowance :: real
  personal_allowance_taper_threshold :: real
  bands :: "band list"
  primary_threshold_annual :: real
  upper_earnings_limit :: real
  rate_between_thresholds :: real
  rate_above_uel :: real
  student_loans :: "string \<rightharpoonup> loan_rates"

subsection \<open>Rounding\<close>

text \<open>
  \<^verbatim>\<open>round(x, 2)\<close> on exact values: to the nearest hundredth, a tie to the even
  neighbour.
\<close>

definition round_half_even :: "real \<Rightarrow> int" where
  "round_half_even x =
     (let f = \<lfloor>x\<rfloor>; d = x - of_int f
      in if d < 1 / 2 then f
         else if 1 / 2 < d then f + 1
         else if even f then f else f + 1)"

definition round2 :: "real \<Rightarrow> real" where
  "round2 x = of_int (round_half_even (x * 100)) / 100"

subsection \<open>tools/tax_calculator.py\<close>

text \<open>\<^verbatim>\<open>_calculate_personal_allowance\<close>, lines 119 to 128.\<close>

definition calculate_personal_allowance :: "rates \<Rightarrow> real \<Rightarrow> real" where
  "calculate_personal_allowance r gross =
     (let base_allowance = personal_allowance r;
          taper_threshold = personal_allowance_taper_threshold r
      in if gross \<le> taper_threshold then base_allowance
         else (let reduction = (gross - taper_threshold) / 2
               in max 0 (base_allowance - reduction)))"

text \<open>
  \<^verbatim>\<open>band["max"] if band["max"] else float("inf")\<close>: \<open>None\<close> stands for infinity,
  which a \<^verbatim>\<open>null\<close> and also a zero maximum give.
\<close>

definition band_max_or_inf :: "band \<Rightarrow> real option" where
  "band_max_or_inf b =
     (case band_max b of None \<Rightarrow> None | Some m \<Rightarrow> if m = 0 then None else Some m)"

text \<open>
  The loop of \<^verbatim>\<open>_calculate_income_tax\<close>, lines 137 to 153, on the bands still to
  visit, \<^verbatim>\<open>remaining\<close> and the three accumulators. With an infinite maximum the
  width is infinite and \<^verbatim>\<open>min(remaining, band_width)\<close> is \<^verbatim>\<open>remaining\<close>.
\<close>

fun income_tax_loop :: "band list \<Rightarrow> real \<Rightarrow> real \<times> real \<times> real \<Rightarrow> real \<times> real \<times> real" where
  "income_tax_loop [] remaining acc = acc"
| "income_tax_loop (b # bs) remaining (basic, higher, additional) =
     (if remaining \<le> 0 then (basic, higher, additional)
      else
        (let taxable_in_band =
               (case band_max_or_inf b of
                  None \<Rightarrow> remaining
                | Some m \<Rightarrow> min remaining (m - band_min b));
             tax = taxable_in_band * band_rate b;
             acc' =
               (if band_name b = ''Basic Rate'' then (tax, higher, additional)
                else if band_name b = ''Higher Rate'' then (basic, tax, additional)
                else if band_name b = ''Additional Rate'' then (basic, higher, tax)
                else (basic, higher, additional))
         in income_tax_loop bs (remaining - taxable_in_band) acc'))"

text \<open>\<^verbatim>\<open>_calculate_income_tax\<close>, lines 130 to 155.\<close>

definition calculate_income_tax :: "rates \<Rightarrow> real \<Rightarrow> real \<times> real \<times> real" where
  "calculate_income_tax r taxable_income' = income_tax_loop (bands r) taxable_income' (0, 0, 0)"

text \<open>\<^verbatim>\<open>_calculate_ni\<close>, lines 157 to 179.\<close>

definition calculate_ni :: "rates \<Rightarrow> real \<Rightarrow> real" where
  "calculate_ni r gross =
     (let primary_threshold = primary_threshold_annual r;
          uel = upper_earnings_limit r;
          rate_main = rate_between_thresholds r;
          rate_upper = rate_above_uel r
      in if gross \<le> primary_threshold then 0
         else
           (let ni_main = min gross uel - primary_threshold;
                ni_main_amount = ni_main * rate_main;
                ni_upper_amount = (if uel < gross then (gross - uel) * rate_upper else 0)
            in ni_main_amount + ni_upper_amount))"

text \<open>
  \<^verbatim>\<open>_calculate_student_loan\<close>, lines 181 to 200. \<^verbatim>\<open>.get\<close> gives \<^verbatim>\<open>None\<close> for a
  plan the table has no entry for.
\<close>

definition calculate_student_loan :: "rates \<Rightarrow> real \<Rightarrow> StudentLoanPlan option \<Rightarrow> real" where
  "calculate_student_loan r gross plan =
     (case plan of
        None \<Rightarrow> 0
      | Some p \<Rightarrow>
          (case student_loans r (StudentLoanPlan_value p) of
             None \<Rightarrow> 0
           | Some plan_rates \<Rightarrow>
               if gross \<le> threshold plan_rates then 0
               else (gross - threshold plan_rates) * loan_rate plan_rates))"

text \<open>
  \<^verbatim>\<open>_calculate_postgraduate_loan\<close>, lines 202 to 211. The subscript
  \<^verbatim>\<open>["postgraduate"]\<close> raises KeyError when the table has no such entry.
\<close>

definition calculate_postgraduate_loan :: "rates \<Rightarrow> real \<Rightarrow> error + real" where
  "calculate_postgraduate_loan r gross =
     (case student_loans r ''postgraduate'' of
        None \<Rightarrow> Inl (KeyError ''postgraduate'')
      | Some pg_rates \<Rightarrow>
          if gross \<le> threshold pg_rates then Inr 0
          else Inr ((gross - threshold pg_rates) * loan_rate pg_rates))"

text \<open>
  \<^verbatim>\<open>self.rates["income_tax"]["bands"][i]["max"]\<close> as the right operand of \<^verbatim>\<open>>\<close>
  against a number (lines 67, 71, 75, 79): IndexError when the list has no band
  \<open>i\<close>, TypeError when the band's maximum is \<^verbatim>\<open>null\<close>.
\<close>

definition band_max_at :: "rates \<Rightarrow> nat \<Rightarrow> error + real" where
  "band_max_at r i =
     (if i < length (bands r)
      then (case band_max (bands r ! i) of None \<Rightarrow> Inl TypeError | Some m \<Rightarrow> Inr m)
      else Inl IndexError)"

text \<open>The block of \<^verbatim>\<open>calculate\<close> that computes \<^verbatim>\<open>pension_tax_relief\<close>, lines 63 to 81.\<close>

definition pension_relief :: "rates \<Rightarrow> bool \<Rightarrow> real \<Rightarrow> real \<Rightarrow> error + real" where
  "pension_relief r salary_sacrifice pension_contribution' taxable_income' =
     (if \<not> salary_sacrifice \<and> 0 < pension_contribution' then
        (case band_max_at r 0 of
           Inl e \<Rightarrow> Inl e
         | Inr max0 \<Rightarrow>
             if max0 < taxable_income' then
               (let higher_rate_portion = min pension_contribution' (taxable_income' - max0);
                    relief = higher_rate_portion * 0.20
                in case band_max_at r 1 of
                     Inl e \<Rightarrow> Inl e
                   | Inr max1 \<Rightarrow>
                       if max1 < taxable_income' then
                         (let additional_portion =
                                min pension_contribution' (taxable_income' - max1)
                          in Inr (relief + additional_portion * 0.05))
                       else Inr relief)
             else Inr 0)
      else Inr 0)"

text \<open>
  The first loop of \<^verbatim>\<open>_calculate_marginal_rate\<close>, lines 231 to 238, on the bands
  still to visit and the current \<^verbatim>\<open>income_tax_marginal\<close>.
\<close>

fun marginal_band_loop :: "band list \<Rightarrow> real \<Rightarrow> real \<Rightarrow> real" where
  "marginal_band_loop [] next_taxable income_tax_marginal = income_tax_marginal"
| "marginal_band_loop (b # bs) next_taxable income_tax_marginal =
     (if band_min b < next_taxable \<and>
         (case band_max_or_inf b of None \<Rightarrow> True | Some m \<Rightarrow> next_taxable \<le> m)
      then band_rate b
      else if band_min b < next_taxable then marginal_band_loop bs next_taxable (band_rate b)
      else marginal_band_loop bs next_taxable income_tax_marginal)"

text \<open>
  The special case of lines 240 to 246: whether the override of the income-tax
  component fires, for a filer whose \<^verbatim>\<open>is_secondary_job\<close> is \<open>secondary\<close>.
\<close>

definition taper_override :: "rates \<Rightarrow> bool \<Rightarrow> real \<Rightarrow> bool" where
  "taper_override r secondary next_gross \<longleftrightarrow>
     \<not> secondary \<and>
     personal_allowance_taper_threshold r < next_gross \<and> next_gross \<le> 125140"

text \<open>
  The income-tax component of \<^verbatim>\<open>_calculate_marginal_rate\<close>, lines 220 to 246,
  for a filer whose \<^verbatim>\<open>is_secondary_job\<close> is \<open>secondary\<close>: the band loop from 0,
  then the special case.
\<close>

definition income_tax_marginal_at :: "rates \<Rightarrow> bool \<Rightarrow> real \<Rightarrow> real" where
  "income_tax_marginal_at r secondary next_gross =
     (let next_taxable =
            (if secondary then next_gross
             else next_gross - calculate_personal_allowance r next_gross);
          income_tax_marginal = marginal_band_loop (bands r) next_taxable 0
      in if taper_override r secondary next_gross then 0.60 else income_tax_marginal)"

text \<open>The National Insurance component, lines 248 to 255.\<close>

definition ni_marginal_at :: "rates \<Rightarrow> real \<Rightarrow> real" where
  "ni_marginal_at r next_gross =
     (if upper_earnings_limit r < next_gross then rate_above_uel r
      else if primary_threshold_annual r < next_gross then rate_between_thresholds r
      else 0)"

text \<open>
  The loan component, lines 257 to 267. The subscript \<^verbatim>\<open>["postgraduate"]\<close>
  raises KeyError when the table has no such entry.
\<close>

definition sl_marginal_at :: "rates \<Rightarrow> tax_input \<Rightarrow> real \<Rightarrow> error + real" where
  "sl_marginal_at r tax_input' next_gross =
     (let sl_marginal =
            (case student_loan_plan tax_input' of
               None \<Rightarrow> 0
             | Some p \<Rightarrow>
                 (case student_loans r (StudentLoanPlan_value p) of
                    None \<Rightarrow> 0
                  | Some plan_rates \<Rightarrow>
                      if threshold plan_rates < next_gross then loan_rate plan_rates else 0))
      in if has_postgraduate_loan tax_input' then
           (case student_loans r ''postgraduate'' of
              None \<Rightarrow> Inl (KeyError ''postgraduate'')
            | Some pg_rates \<Rightarrow>
                if threshold pg_rates < next_gross
                then Inr (sl_marginal + loan_rate pg_rates) else Inr sl_marginal)
         else Inr sl_marginal)"

text \<open>
  \<^verbatim>\<open>_calculate_marginal_rate\<close>, lines 213 to 269. The read of
  \<^verbatim>\<open>tax_input.is_secondary_job\<close> at line 221 comes first.
\<close>

definition calculate_marginal_rate :: "rates \<Rightarrow> real \<Rightarrow> tax_input \<Rightarrow> error + real" where
  "calculate_marginal_rate r gross tax_input' =
     (let next_gross = gross + 1
      in case is_secondary_job tax_input' of
           None \<Rightarrow> Inl (AttributeError ''is_secondary_job'')
         | Some secondary \<Rightarrow>
             (case sl_marginal_at r tax_input' next_gross of
                Inl e \<Rightarrow> Inl e
              | Inr sl_marginal \<Rightarrow>
                  Inr ((income_tax_marginal_at r secondary next_gross +
                        ni_marginal_at r next_gross + sl_marginal) * 100)))"

text \<open>
  \<^verbatim>\<open>calculate\<close>, lines 17 to 117, after validation and the first read of
  \<^verbatim>\<open>is_secondary_job\<close>: \<open>secondary\<close> is the value that read gave.
\<close>

definition calculate_body :: "rates \<Rightarrow> tax_input \<Rightarrow> bool \<Rightarrow> error + TaxBreakdown" where
  "calculate_body r tax_input' secondary =
     (let gross = gross_salary tax_input' + bonus tax_input';
          pension_contribution' = gross * (pension_contribution_percent tax_input' / 100);
          taxable_gross =
            (if salary_sacrifice_pension tax_input' then gross - pension_contribution'
             else gross);
          personal_allowance' =
            (if secondary then 0 else calculate_personal_allowance r taxable_gross);
          taxable_income' =
            (if secondary then taxable_gross else max 0 (taxable_gross - personal_allowance'));
          bha = calculate_income_tax r taxable_income';
          basic = fst bha;
          higher = fst (snd bha);
          additional = snd (snd bha);
          total_income_tax' = basic + higher + additional;
          ni = calculate_ni r taxable_gross;
          student_loan =
            calculate_student_loan r taxable_gross (student_loan_plan tax_input')
      in case (if has_postgraduate_loan tax_input'
               then calculate_postgraduate_loan r taxable_gross else Inr 0) of
           Inl e \<Rightarrow> Inl e
         | Inr postgrad_loan \<Rightarrow>
             (case pension_relief r (salary_sacrifice_pension tax_input')
                     pension_contribution' taxable_income' of
                Inl e \<Rightarrow> Inl e
              | Inr pension_tax_relief' \<Rightarrow>
                  (let total_deductions' =
                         total_income_tax' + ni + student_loan + postgrad_loan +
                         (if \<not> salary_sacrifice_pension tax_input'
                          then pension_contribution' else 0);
                       net_annual = gross - total_deductions';
                       net_monthly = net_annual / 12;
                       effective_rate =
                         (if 0 < gross then total_deductions' / gross * 100 else 0)
                   in case calculate_marginal_rate r taxable_gross tax_input' of
                        Inl e \<Rightarrow> Inl e
                      | Inr marginal_rate \<Rightarrow>
                          Inr \<lparr> gross_income = gross,
                                taxable_income = taxable_income',
                                personal_allowance_used = personal_allowance',
                                income_tax_basic = basic,
                                income_tax_higher = higher,
                                income_tax_additional = additional,
                                total_income_tax = total_income_tax',
                                ni_contributions = ni,
                                student_loan_repayment = student_loan,
                                postgraduate_loan_repayment = postgrad_loan,
                                pension_contribution = pension_contribution',
                                pension_tax_relief = pension_tax_relief',
                                total_deductions = total_deductions',
                                net_annual_income = net_annual,
                                net_monthly_income = net_monthly,
                                effective_tax_rate = round2 effective_rate,
                                marginal_tax_rate = round2 marginal_rate \<rparr>)))"

text \<open>
  \<^verbatim>\<open>calculate\<close>: the three checks of lines 20 to 25, then the read of
  \<^verbatim>\<open>tax_input.is_secondary_job\<close> at line 39, then the rest. Lines 27 to 36
  between the checks and that read cannot fail.
\<close>

definition calculate :: "rates \<Rightarrow> tax_input \<Rightarrow> error + TaxBreakdown" where
  "calculate r tax_input' =
     (if gross_salary tax_input' < 0 then
        Inl (ValueError ''Gross salary cannot be negative'')
      else if bonus tax_input' < 0 then
        Inl (ValueError ''Bonus cannot be negative'')
      else if pension_contribution_percent tax_input' < 0 \<or>
              100 < pension_contribution_percent tax_input' then
        Inl (ValueError ''Pension contribution must be between 0 and 100 percent'')
      else
        (case is_secondary_job tax_input' of
           None \<Rightarrow> Inl (AttributeError ''is_secondary_job'')
         | Some secondary \<Rightarrow> calculate_body r tax_input' secondary))"

text \<open>
  \<^verbatim>\<open>calculate_uk_tax\<close>, lines 273 to 300, over the table the calculator has
  loaded. \<^verbatim>\<open>if student_loan_plan:\<close> is false for \<^verbatim>\<open>None\<close> and for the empty
  string. The result of \<^verbatim>\<open>model_dump()\<close> is the breakdown itself.
\<close>

definition calculate_uk_tax ::
  "rates \<Rightarrow> real \<Rightarrow> string option \<Rightarrow> bool \<Rightarrow> real \<Rightarrow> bool \<Rightarrow> real \<Rightarrow> bool \<Rightarrow>
   error + TaxBreakdown" where
  "calculate_uk_tax r gross_salary' student_loan_plan' has_postgraduate_loan'
       pension_contribution_percent' salary_sacrifice_pension' bonus' is_secondary_job' =
     (case (case student_loan_plan' of
              None \<Rightarrow> Inr None
            | Some s \<Rightarrow>
                if s = [] then Inr None
                else (case StudentLoanPlan_of_value s of
                        Inl e \<Rightarrow> Inl e
                      | Inr p \<Rightarrow> Inr (Some p))) of
        Inl e \<Rightarrow> Inl e
      | Inr plan \<Rightarrow>
          calculate r
            (TaxInput gross_salary' plan has_postgraduate_loan'
               pension_contribution_percent' salary_sacrifice_pension' bonus' 0 0
               (Some is_secondary_job')))"

subsection \<open>The default rate table\<close>

text \<open>
  Modelled from the spec: the default 2024/25 rate configuration, whose file
  \<^verbatim>\<open>data/tax_rates_2025_26.json\<close> is missing from the sources. Personal allowance
  12570, taper threshold 100000, three contiguous bands with boundaries 37700 and
  125140 and rates 20, 40 and 45 percent, the last band unbounded, National
  Insurance at 8 percent between the thresholds and 2 percent above the upper
  earnings limit. The band names are the three that \<^verbatim>\<open>_calculate_income_tax\<close>
  matches on. The two National Insurance thresholds and the loan table, which the
  spec gives no figures for, are parameters.
\<close>

definition default_rates :: "real \<Rightarrow> real \<Rightarrow> (string \<rightharpoonup> loan_rates) \<Rightarrow> rates" where
  "default_rates pt uel loans =
     \<lparr> personal_allowance = 12570,
       personal_allowance_taper_threshold = 100000,
       bands =
         [\<lparr> band_name = ''Basic Rate'', band_min = 0, band_max = Some 37700,
            band_rate = 0.20 \<rparr>,
          \<lparr> band_name = ''Higher Rate'', band_min = 37700, band_max = Some 125140,
            band_rate = 0.40 \<rparr>,
          \<lparr> band_name = ''Additional Rate'', band_min = 125140, band_max = None,
            band_rate = 0.45 \<rparr>],
       primary_threshold_annual = pt,
       upper_earnings_limit = uel,
       rate_between_thresholds = 0.08,
       rate_above_uel = 0.02,
       student_loans = loans \<rparr>"

text \<open>
  The loan entries whose figures the test-suite states
  (\<^verbatim>\<open>tests/test_tax_calculator.py\<close>, lines 224 and 332): plan 2 at threshold 27295
  and 9 percent, the postgraduate loan at threshold 21000 and 6 percent.
\<close>

definition test_loans :: "string \<rightharpoonup> loan_rates" where
  "test_loans =
     [''plan_2'' \<mapsto> \<lparr> threshold = 27295, loan_rate = 0.09 \<rparr>,
      ''postgraduate'' \<mapsto> \<lparr> threshold = 21000, loan_rate = 0.06 \<rparr>]"

text \<open>
  A concrete table for evaluation: the default configuration with the primary
  threshold at 12570 and the upper earnings limit at 50270.
\<close>

definition test_rates :: rates where
  "test_rates = default_rates 12570 50270 test_loans"

text \<open>An object with every attribute the calculator reads.\<close>

definition filer :: "real \<Rightarrow> bool \<Rightarrow> tax_input" where
  "filer g secondary =
     \<lparr> gross_salary = g, student_loan_plan = None, has_postgraduate_loan = False,
       pension_contribution_percent = 0, salary_sacrifice_pension = False, bonus = 0,
       dividend_income = 0, rental_income = 0, is_secondary_job = Some secondary \<rparr>"

subsection \<open>Binary64 rounding\<close>

text \<open>
  \<open>rd x\<close> is the double nearest to \<open>x\<close>, a tie going to the even significand, as
  every arithmetic operation on Python's \<^verbatim>\<open>float\<close> rounds its exact result: the
  unit in the last place is \<open>2\<close> to the power \<open>e\<close>, with \<open>e\<close> the binary exponent
  of \<open>x\<close> less 52 and not below -1074, where the subnormal numbers end. Overflow
  to infinity, above \<open>2 ^ 1024\<close>, is not modelled.
\<close>

definition pow2 :: "int \<Rightarrow> real" where
  "pow2 e = (if 0 \<le> e then 2 ^ nat e else 1 / 2 ^ nat (- e))"

definition rd :: "real \<Rightarrow> real" where
  "rd x =
     (let e = max (bitlen \<lfloor>\<bar>x\<bar> * 2 ^ 1074\<rfloor> - 1127) (- 1074)
      in of_int (round_half_even (x / pow2 e)) * pow2 e)"

subsection \<open>tools/tax_calculator.py with rounded arithmetic\<close>

text \<open>
  The functions of the calculator again, each sum, difference, product and
  quotient of the source followed by \<open>rnd\<close>, in the source's order of evaluation.
  A literal with a fraction (\<^verbatim>\<open>0.20\<close>, \<^verbatim>\<open>0.05\<close>, \<^verbatim>\<open>0.60\<close>) is rounded where it
  is read; \<^verbatim>\<open>min\<close>, \<^verbatim>\<open>max\<close> and the comparisons are exact. \<^verbatim>\<open>round(x, 2)\<close> rounds
  the exact value of the double \<open>x\<close> to two places and returns the nearest double.
\<close>

definition calculate_personal_allowance_fl :: "(real \<Rightarrow> real) \<Rightarrow> rates \<Rightarrow> real \<Rightarrow> real" where
  "calculate_personal_allowance_fl rnd r gross =
     (let base_allowance = personal_allowance r;
          taper_threshold = personal_allowance_taper_threshold r
      in if gross \<le> taper_threshold then base_allowance
         else (let reduction = rnd (rnd (gross - taper_threshold) / 2)
               in max 0 (rnd (base_allowance - reduction))))"

fun income_tax_loop_fl ::
  "(real \<Rightarrow> real) \<Rightarrow> band list \<Rightarrow> real \<Rightarrow> real \<times> real \<times> real \<Rightarrow> real \<times> real \<times> real" where
  "income_tax_loop_fl rnd [] remaining acc = acc"
| "income_tax_loop_fl rnd (b # bs) remaining (basic, higher, additional) =
     (if remaining \<le> 0 then (basic, higher, additional)
      else
        (let taxable_in_band =
               (case band_max_or_inf b of
                  None \<Rightarrow> remaining
                | Some m \<Rightarrow> min remaining (rnd (m - band_min b)));
             tax = rnd (taxable_in_band * band_rate b);
             acc' =
               (if band_name b = ''Basic Rate'' then (tax, higher, additional)
                else if band_name b = ''Higher Rate'' then (basic, tax, additional)
                else if band_name b = ''Additional Rate'' then (basic, higher, tax)
                else (basic, higher, additional))
         in income_tax_loop_fl rnd bs (rnd (remaining - taxable_in_band)) acc'))"

definition calculate_income_tax_fl ::
  "(real \<Rightarrow> real) \<Rightarrow> rates \<Rightarrow> real \<Rightarrow> real \<times> real \<times> real" where
  "calculate_income_tax_fl rnd r taxable_income' =
     income_tax_loop_fl rnd (bands r) taxable_income' (0, 0, 0)"

definition calculate_ni_fl :: "(real \<Rightarrow> real) \<Rightarrow> rates \<Rightarrow> real \<Rightarrow> real" where
  "calculate_ni_fl rnd r gross =
     (let primary_threshold = primary_threshold_annual r;
          uel = upper_earnings_limit r;
          rate_main = rate_between_thresholds r;
          rate_upper = rate_above_uel r
      in if gross \<le> primary_threshold then 0
         else
           (let ni_main = rnd (min gross uel - primary_threshold);
                ni_main_amount = rnd (ni_main * rate_main);
                ni_upper_amount =
                  (if uel < gross then rnd (rnd (gross - uel) * rate_upper) else 0)
            in rnd (ni_main_amount + ni_upper_amount)))"

definition calculate_student_loan_fl ::
  "(real \<Rightarrow> real) \<Rightarrow> rates \<Rightarrow> real \<Rightarrow> StudentLoanPlan option \<Rightarrow> real" where
  "calculate_student_loan_fl rnd r gross plan =
     (case plan of
        None \<Rightarrow> 0
      | Some p \<Rightarrow>
          (case student_loans r (StudentLoanPlan_value p) of
             None \<Rightarrow> 0
           | Some plan_rates \<Rightarrow>
               if gross \<le> threshold plan_rates then 0
               else rnd (rnd (gross - threshold plan_rates) * loan_rate plan_rates)))"

definition calculate_postgraduate_loan_fl ::
  "(real \<Rightarrow> real) \<Rightarrow> rates \<Rightarrow> real \<Rightarrow> error + real" where
  "calculate_postgraduate_loan_fl rnd r gross =
     (case student_loans r ''postgraduate'' of
        None \<Rightarrow> Inl (KeyError ''postgraduate'')
      | Some pg_rates \<Rightarrow>
          if gross \<le> threshold pg_rates then Inr 0
          else Inr (rnd (rnd (gross - threshold pg_rates) * loan_rate pg_rates)))"

definition pension_relief_fl ::
  "(real \<Rightarrow> real) \<Rightarrow> rates \<Rightarrow> bool \<Rightarrow> real \<Rightarrow> real \<Rightarrow> error + real" where
  "pension_relief_fl rnd r salary_sacrifice pension_contribution' taxable_income' =
     (if \<not> salary_sacrifice \<and> 0 < pension_contribution' then
        (case band_max_at r 0 of
           Inl e \<Rightarrow> Inl e
         | Inr max0 \<Rightarrow>
             if max0 < taxable_income' then
               (let higher_rate_portion =
                      min pension_contribution' (rnd (taxable_income' - max0));
                    relief = rnd (higher_rate_portion * rnd 0.20)
                in case band_max_at r 1 of
                     Inl e \<Rightarrow> Inl e
                   | Inr max1 \<Rightarrow>
                       if max1 < taxable_income' then
                         (let additional_portion =
                                min pension_contribution' (rnd (taxable_income' - max1))
                          in Inr (rnd (relief + rnd (additional_portion * rnd 0.05))))
                       else Inr relief)
             else Inr 0)
      else Inr 0)"

definition income_tax_marginal_at_fl :: "(real \<Rightarrow> real) \<Rightarrow> rates \<Rightarrow> bool \<Rightarrow> real \<Rightarrow> real" where
  "income_tax_marginal_at_fl rnd r secondary next_gross =
     (let next_taxable =
            (if secondary then next_gross
             else rnd (next_gross - calculate_personal_allowance_fl rnd r next_gross));
          income_tax_marginal = marginal_band_loop (bands r) next_taxable 0
      in if taper_override r secondary next_gross then rnd 0.60 else income_tax_marginal)"

definition sl_marginal_at_fl ::
  "(real \<Rightarrow> real) \<Rightarrow> rates \<Rightarrow> tax_input \<Rightarrow> real \<Rightarrow> error + real" where
  "sl_marginal_at_fl rnd r tax_input' next_gross =
     (let sl_marginal =
            (case student_loan_plan tax_input' of
               None \<Rightarrow> 0
             | Some p \<Rightarrow>
                 (case student_loans r (StudentLoanPlan_value p) of
                    None \<Rightarrow> 0
                  | Some plan_rates \<Rightarrow>
                      if threshold plan_rates < next_gross then loan_rate plan_rates else 0))
      in if has_postgraduate_loan tax_input' then
           (case student_loans r ''postgraduate'' of
              None \<Rightarrow> Inl (KeyError ''postgraduate'')
            | Some pg_rates \<Rightarrow>
                if threshold pg_rates < next_gross
                then Inr (rnd (sl_marginal + loan_rate pg_rates)) else Inr sl_marginal)
         else Inr sl_marginal)"

definition calculate_marginal_rate_fl ::
  "(real \<Rightarrow> real) \<Rightarrow> rates \<Rightarrow> real \<Rightarrow> tax_input \<Rightarrow> error + real" where
  "calculate_marginal_rate_fl rnd r gross tax_input' =
     (let next_gross = rnd (gross + 1)
      in case is_secondary_job tax_input' of
           None \<Rightarrow> Inl (AttributeError ''is_secondary_job'')
         | Some secondary \<Rightarrow>
             (case sl_marginal_at_fl rnd r tax_input' next_gross of
                Inl e \<Rightarrow> Inl e
              | Inr sl_marginal \<Rightarrow>
                  Inr (rnd (rnd (rnd (income_tax_marginal_at_fl rnd r secondary next_gross +
                                      ni_marginal_at r next_gross) + sl_marginal) * 100))))"

definition calculate_body_fl ::
  "(real \<Rightarrow> real) \<Rightarrow> rates \<Rightarrow> tax_input \<Rightarrow> bool \<Rightarrow> error + TaxBreakdown" where
  "calculate_body_fl rnd r tax_input' secondary =
     (let gross = rnd (gross_salary tax_input' + bonus tax_input');
          pension_contribution' =
            rnd (gross * rnd (pension_contribution_percent tax_input' / 100));
          taxable_gross =
            (if salary_sacrifice_pension tax_input' then rnd (gross - pension_contribution')
             else gross);
          personal_allowance' =
            (if secondary then 0 else calculate_personal_allowance_fl rnd r taxable_gross);
          taxable_income' =
            (if secondary then taxable_gross
             else max 0 (rnd (taxable_gross - personal_allowance')));
          bha = calculate_income_tax_fl rnd r taxable_income';
          basic = fst bha;
          higher = fst (snd bha);
          additional = snd (snd bha);
          total_income_tax' = rnd (rnd (basic + higher) + additional);
          ni = calculate_ni_fl rnd r taxable_gross;
          student_loan =
            calculate_student_loan_fl rnd r taxable_gross (student_loan_plan tax_input')
      in case (if has_postgraduate_loan tax_input'
               then calculate_postgraduate_loan_fl rnd r taxable_gross else Inr 0) of
           Inl e \<Rightarrow> Inl e
         | Inr postgrad_loan \<Rightarrow>
             (case pension_relief_fl rnd r (salary_sacrifice_pension tax_input')
                     pension_contribution' taxable_income' of
                Inl e \<Rightarrow> Inl e
              | Inr pension_tax_relief' \<Rightarrow>
                  (let total_deductions' =
                         rnd (rnd (rnd (rnd (total_income_tax' + ni) + student_loan) +
                                   postgrad_loan) +
                              (if \<not> salary_sacrifice_pension tax_input'
                               then pension_contribution' else 0));
                       net_annual = rnd (gross - total_deductions');
                       net_monthly = rnd (net_annual / 12);
                       effective_rate =
                         (if 0 < gross then rnd (rnd (total_deductions' / gross) * 100)
                          else 0)
                   in case calculate_marginal_rate_fl rnd r taxable_gross tax_input' of
                        Inl e \<Rightarrow> Inl e
                      | Inr marginal_rate \<Rightarrow>
                          Inr \<lparr> gross_income = gross,
                                taxable_income = taxable_income',
                                personal_allowance_used = personal_allowance',
                                income_tax_basic = basic,
                                income_tax_higher = higher,
                                income_tax_additional = additional,
                                total_income_tax = total_income_tax',
                                ni_contributions = ni,
                                student_loan_repayment = student_loan,
                                postgraduate_loan_repayment = postgrad_loan,
                                pension_contribution = pension_contribution',
                                pension_tax_relief = pension_tax_relief',
                                total_deductions = total_deductions',
                                net_annual_income = net_annual,
                                net_monthly_income = net_monthly,
                                effective_tax_rate = rnd (round2 effective_rate),
                                marginal_tax_rate = rnd (round2 marginal_rate) \<rparr>)))"

definition calculate_fl :: "(real \<Rightarrow> real) \<Rightarrow> rates \<Rightarrow> tax_input \<Rightarrow> error + TaxBreakdown" where
  "calculate_fl rnd r tax_input' =
     (if gross_salary tax_input' < 0 then
        Inl (ValueError ''Gross salary cannot be negative'')
      else if bonus tax_input' < 0 then
        Inl (ValueError ''Bonus cannot be negative'')
      else if pension_contribution_percent tax_input' < 0 \<or>
              100 < pension_contribution_percent tax_input' then
        Inl (ValueError ''Pension contribution must be between 0 and 100 percent'')
      else
        (case is_secondary_job tax_input' of
           None \<Rightarrow> Inl (AttributeError ''is_secondary_job'')
         | Some secondary \<Rightarrow> calculate_body_fl rnd r tax_input' secondary))"

text \<open>
  The concrete table as the JSON parser delivers it: every figure rounded to the
  nearest double. Only the rates change; the amounts are integers.
\<close>

definition double_rates :: rates where
  "double_rates =
     \<lparr> personal_allowance = 12570,
       personal_allowance_taper_threshold = 100000,
       bands =
         [\<lparr> band_name = ''Basic Rate'', band_min = 0, band_max = Some 37700,
            band_rate = rd 0.20 \<rparr>,
          \<lparr> band_name = ''Higher Rate'', band_min = 37700, band_max = Some 125140,
            band_rate = rd 0.40 \<rparr>,
          \<lparr> band_name = ''Additional Rate'', band_min = 125140, band_max = None,
            band_rate = rd 0.45 \<rparr>],
       primary_threshold_annual = 12570,
       upper_earnings_limit = 50270,
       rate_between_thresholds = rd 0.08,
       rate_above_uel = rd 0.02,
       student_loans =
         [''plan_2'' \<mapsto> \<lparr> threshold = 27295, loan_rate = rd 0.09 \<rparr>,
          ''postgraduate'' \<mapsto> \<lparr> threshold = 21000, loan_rate = rd 0.06 \<rparr>] \<rparr>"

text \<open>
  The breakdown that double arithmetic gives on that table for a primary-job
  filer without loans or pension at a gross salary of 99298.73, each figure
  written as the fraction the double is. In decimal: taxable income 86728.73,
  higher-rate tax 19611.492, income tax 27151.492, National Insurance 3996.5746,
  total deductions 31148.0666, net annual income 68150.66339999999 and net
  monthly income 5679.221949999999.
\<close>

definition double_run_99298 :: TaxBreakdown where
  "double_run_99298 =
     \<lparr> gross_income = 6823756766149345 / 68719476736,
       taxable_income = 5959952943577825 / 68719476736,
       personal_allowance_used = 12570,
       income_tax_basic = 7540,
       income_tax_higher = 673845734126125 / 34359738368,
       income_tax_additional = 0,
       total_income_tax = 932918161420845 / 34359738368,
       ni_contributions = 549285030496777 / 137438953472,
       student_loan_repayment = 0,
       postgraduate_loan_repayment = 0,
       pension_contribution = 0,
       pension_tax_relief = 0,
       total_deductions = 4280957676180157 / 137438953472,
       net_annual_income = 2341638964029633 / 34359738368,
       net_monthly_income = 780546321343211 / 137438953472,
       effective_tax_rate = 8829870019413279 / 281474976710656,
       marginal_tax_rate = 42 \<rparr>"

subsection \<open>The input contract as the spec words it\<close>

text \<open>
  The fields of TaxInput that section 3 of the spec enumerates; kept apart from
  \<open>TaxInput_fields\<close>, which lists what the class declares.
\<close>

definition spec_TaxInput_fields :: "string list" where
  "spec_TaxInput_fields =
     [''gross_salary'', ''bonus'', ''student_loan_plan'', ''has_postgraduate_loan'',
      ''pension_contribution_percent'', ''salary_sacrifice_pension'',
      ''is_secondary_job'']"

subsection \<open>Intermediate values of \<^verbatim>\<open>calculate\<close>\<close>

text \<open>
  Names for the local variables of \<^verbatim>\<open>calculate\<close>, as functions of its input:
  \<^verbatim>\<open>gross\<close> (line 27), \<^verbatim>\<open>pension_contribution\<close> (line 30), \<^verbatim>\<open>taxable_gross\<close>
  (lines 32 to 36), \<^verbatim>\<open>taxable_income\<close> (lines 39 to 45), \<^verbatim>\<open>total_income_tax\<close>
  (line 49) and \<^verbatim>\<open>total_deductions\<close> (lines 84 to 90). The lemma
  \<open>calculate_body_eq\<close> below shows that they are what \<open>calculate_body\<close> computes.
\<close>

definition gross_of :: "tax_input \<Rightarrow> real" where
  "gross_of ti = gross_salary ti + bonus ti"

definition pension_of :: "tax_input \<Rightarrow> real" where
  "pension_of ti = gross_of ti * (pension_contribution_percent ti / 100)"

definition taxable_gross_of :: "tax_input \<Rightarrow> real" where
  "taxable_gross_of ti =
     (if salary_sacrifice_pension ti then gross_of ti - pension_of ti else gross_of ti)"

definition taxable_income_of :: "rates \<Rightarrow> bool \<Rightarrow> real \<Rightarrow> real" where
  "taxable_income_of r secondary taxable_gross =
     (if secondary then taxable_gross
      else max 0 (taxable_gross - calculate_personal_allowance r taxable_gross))"

definition income_tax_total :: "rates \<Rightarrow> real \<Rightarrow> real" where
  "income_tax_total r x =
     fst (calculate_income_tax r x) + fst (snd (calculate_income_tax r x)) +
     snd (snd (calculate_income_tax r x))"

definition deductions_of :: "rates \<Rightarrow> tax_input \<Rightarrow> bool \<Rightarrow> real \<Rightarrow> real" where
  "deductions_of r ti secondary pg =
     income_tax_total r (taxable_income_of r secondary (taxable_gross_of ti)) +
     calculate_ni r (taxable_gross_of ti) +
     calculate_student_loan r (taxable_gross_of ti) (student_loan_plan ti) + pg +
     (if salary_sacrifice_pension ti then 0 else pension_of ti)"

text \<open>
  The breakdown of line 98, given the postgraduate repayment \<open>pg\<close>, the pension
  relief \<open>rel\<close> and the marginal rate \<open>m\<close> that the three fallible steps returned.
\<close>

definition breakdown_of ::
  "rates \<Rightarrow> tax_input \<Rightarrow> bool \<Rightarrow> real \<Rightarrow> real \<Rightarrow> real \<Rightarrow> TaxBreakdown" where
  "breakdown_of r ti secondary pg rel m =
     \<lparr> gross_income = gross_of ti,
       taxable_income = taxable_income_of r secondary (taxable_gross_of ti),
       personal_allowance_used =
         (if secondary then 0 else calculate_personal_allowance r (taxable_gross_of ti)),
       income_tax_basic =
         fst (calculate_income_tax r (taxable_income_of r secondary (taxable_gross_of ti))),
       income_tax_higher =
         fst (snd (calculate_income_tax r
           (taxable_income_of r secondary (taxable_gross_of ti)))),
       income_tax_additional =
         snd (snd (calculate_income_tax r
           (taxable_income_of r secondary (taxable_gross_of ti)))),
       total_income_tax =
         income_tax_total r (taxable_income_of r secondary (taxable_gross_of ti)),
       ni_contributions = calculate_ni r (taxable_gross_of ti),
       student_loan_repayment =
         calculate_student_loan r (taxable_gross_of ti) (student_loan_plan ti),
       postgraduate_loan_repayment = pg,
       pension_contribution = pension_of ti,
       pension_tax_relief = rel,
       total_deductions = deductions_of r ti secondary pg,
       net_annual_income = gross_of ti - deductions_of r ti secondary pg,
       net_monthly_income = (gross_of ti - deductions_of r ti secondary pg) / 12,
       effective_tax_rate =
         round2 (if 0 < gross_of ti
                 then deductions_of r ti secondary pg / gross_of ti * 100 else 0),
       marginal_tax_rate = round2 m \<rparr>"

subsection \<open>The band loop, one accumulator at a time\<close>

text \<open>
  \<^verbatim>\<open>taxable_in_band\<close> of line 143, and the value the loop of
  \<^verbatim>\<open>_calculate_income_tax\<close> leaves in the accumulator it assigns for the band
  name \<open>n\<close>, started at \<open>v\<close>.
\<close>

definition taxable_in_band_of :: "band \<Rightarrow> real \<Rightarrow> real" where
  "taxable_in_band_of b remaining =
     (case band_max_or_inf b of
        None \<Rightarrow> remaining
      | Some m \<Rightarrow> min remaining (m - band_min b))"

fun band_tax :: "string \<Rightarrow> band list \<Rightarrow> real \<Rightarrow> real \<Rightarrow> real" where
  "band_tax n [] remaining v = v"
| "band_tax n (b # bs) remaining v =
     (if remaining \<le> 0 then v
      else band_tax n bs (remaining - taxable_in_band_of b remaining)
             (if band_name b = n then taxable_in_band_of b remaining * band_rate b else v))"

subsection \<open>Well-formed rate tables\<close>

text \<open>
  What the monotonicity results ask of a table: a personal allowance that is not
  negative, bands of non-negative rate and width under distinct names, the
  primary threshold not above the upper earnings limit, National Insurance and
  loan rates that are not negative.
\<close>

definition band_ok :: "band \<Rightarrow> bool" where
  "band_ok b \<longleftrightarrow>
     0 \<le> band_rate b \<and>
     (case band_max_or_inf b of None \<Rightarrow> True | Some m \<Rightarrow> band_min b \<le> m)"

definition loan_ok :: "rates \<Rightarrow> StudentLoanPlan \<Rightarrow> bool" where
  "loan_ok r p \<longleftrightarrow>
     (case student_loans r (StudentLoanPlan_value p) of
        None \<Rightarrow> True
      | Some e \<Rightarrow> 0 \<le> loan_rate e)"

definition rates_ok :: "rates \<Rightarrow> bool" where
  "rates_ok r \<longleftrightarrow>
     0 \<le> personal_allowance r \<and>
     list_all band_ok (bands r) \<and>
     distinct (map band_name (bands r)) \<and>
     primary_threshold_annual r \<le> upper_earnings_limit r \<and>
     0 \<le> rate_between_thresholds r \<and>
     0 \<le> rate_above_uel r \<and>
     list_all (loan_ok r) StudentLoanPlan_members"

text \<open>
  A filer who contributes \<open>pct\<close> percent to a pension, by salary sacrifice when
  \<open>sacrifice\<close>.
\<close>

definition pension_filer :: "real \<Rightarrow> real \<Rightarrow> bool \<Rightarrow> tax_input" where
  "pension_filer g pct sacrifice =
     \<lparr> gross_salary = g, student_loan_plan = None, has_postgraduate_loan = False,
       pension_contribution_percent = pct, salary_sacrifice_pension = sacrifice,
       bonus = 0, dividend_income = 0, rental_income = 0,
       is_secondary_job = Some False \<rparr>"

text \<open>
  A table whose allowance is 10000, so that the allowance is tapered away at
  120000 and not at 125140.
\<close>

definition small_allowance_rates :: rates where
  "small_allowance_rates = test_rates\<lparr> personal_allowance := 10000 \<rparr>"

section \<open>What \<^verbatim>\<open>calculate\<close> returns\<close>

lemma calculate_body_eq:
  "calculate_body r ti secondary =
     (case (if has_postgraduate_loan ti
            then calculate_postgraduate_loan r (taxable_gross_of ti) else Inr 0) of
        Inl e \<Rightarrow> Inl e
      | Inr pg \<Rightarrow>
          (case pension_relief r (salary_sacrifice_pension ti) (pension_of ti)
                  (taxable_income_of r secondary (taxable_gross_of ti)) of
             Inl e \<Rightarrow> Inl e
           | Inr rel \<Rightarrow>
               (case calculate_marginal_rate r (taxable_gross_of ti) ti of
                  Inl e \<Rightarrow> Inl e
                | Inr m \<Rightarrow> Inr (breakdown_of r ti secondary pg rel m))))"
  unfolding calculate_body_def breakdown_of_def deductions_of_def income_tax_total_def
    taxable_income_of_def taxable_gross_of_def pension_of_def gross_of_def Let_def
  by (simp cong: sum.case_cong if_cong)

lemma calculate_InrD:
  assumes "calculate r ti = Inr b"
  shows "\<exists>secondary. is_secondary_job ti = Some secondary \<and>
           calculate_body r ti secondary = Inr b \<and>
           0 \<le> gross_salary ti \<and> 0 \<le> bonus ti \<and>
           0 \<le> pension_contribution_percent ti \<and> pension_contribution_percent ti \<le> 100"
  using assms by (auto simp: calculate_def split: if_splits option.splits)

lemma calculate_body_InrE:
  assumes "calculate_body r ti secondary = Inr b"
  obtains pg rel m where
    "(if has_postgraduate_loan ti
      then calculate_postgraduate_loan r (taxable_gross_of ti) else Inr 0) = Inr pg"
    and "pension_relief r (salary_sacrifice_pension ti) (pension_of ti)
           (taxable_income_of r secondary (taxable_gross_of ti)) = Inr rel"
    and "calculate_marginal_rate r (taxable_gross_of ti) ti = Inr m"
    and "b = breakdown_of r ti secondary pg rel m"
  using assms unfolding calculate_body_eq
  by (auto split: sum.splits intro: that)

lemma calculate_InrE:
  assumes "calculate r ti = Inr b"
  obtains secondary pg rel m where
    "is_secondary_job ti = Some secondary"
    and "0 \<le> gross_salary ti" and "0 \<le> bonus ti"
    and "0 \<le> pension_contribution_percent ti" and "pension_contribution_percent ti \<le> 100"
    and "(if has_postgraduate_loan ti
          then calculate_postgraduate_loan r (taxable_gross_of ti) else Inr 0) = Inr pg"
    and "pension_relief r (salary_sacrifice_pension ti) (pension_of ti)
           (taxable_income_of r secondary (taxable_gross_of ti)) = Inr rel"
    and "calculate_marginal_rate r (taxable_gross_of ti) ti = Inr m"
    and "b = breakdown_of r ti secondary pg rel m"
proof -
  from calculate_InrD [OF assms] obtain secondary where
    s: "is_secondary_job ti = Some secondary" "calculate_body r ti secondary = Inr b"
    "0 \<le> gross_salary ti" "0 \<le> bonus ti"
    "0 \<le> pension_contribution_percent ti" "pension_contribution_percent ti \<le> 100"
    by blast
  from s(2) show ?thesis
    by (rule calculate_body_InrE) (rule that [OF s(1) s(3-6)])
qed

lemma calculate_returns:
  assumes "is_secondary_job ti = Some secondary"
    and "0 \<le> gross_salary ti" and "0 \<le> bonus ti"
    and "0 \<le> pension_contribution_percent ti" and "pension_contribution_percent ti \<le> 100"
    and "(if has_postgraduate_loan ti
          then calculate_postgraduate_loan r (taxable_gross_of ti) else Inr 0) = Inr pg"
    and "pension_relief r (salary_sacrifice_pension ti) (pension_of ti)
           (taxable_income_of r secondary (taxable_gross_of ti)) = Inr rel"
    and "calculate_marginal_rate r (taxable_gross_of ti) ti = Inr m"
  shows "calculate r ti = Inr (breakdown_of r ti secondary pg rel m)"
proof -
  have "calculate r ti = calculate_body r ti secondary"
    using assms(1-5) by (simp add: calculate_def)
  also have "\<dots> = Inr (breakdown_of r ti secondary pg rel m)"
    unfolding calculate_body_eq using assms(6-8) by simp
  finally show ?thesis .
qed

lemma breakdown_of_fields:
  "gross_income (breakdown_of r ti secondary pg rel m) = gross_of ti"
  "taxable_income (breakdown_of r ti secondary pg rel m) =
     taxable_income_of r secondary (taxable_gross_of ti)"
  "total_income_tax (breakdown_of r ti secondary pg rel m) =
     income_tax_total r (taxable_income_of r secondary (taxable_gross_of ti))"
  "ni_contributions (breakdown_of r ti secondary pg rel m) =
     calculate_ni r (taxable_gross_of ti)"
  "student_loan_repayment (breakdown_of r ti secondary pg rel m) =
     calculate_student_loan r (taxable_gross_of ti) (student_loan_plan ti)"
  "postgraduate_loan_repayment (breakdown_of r ti secondary pg rel m) = pg"
  "pension_contribution (breakdown_of r ti secondary pg rel m) = pension_of ti"
  "pension_tax_relief (breakdown_of r ti secondary pg rel m) = rel"
  "total_deductions (breakdown_of r ti secondary pg rel m) = deductions_of r ti secondary pg"
  "net_annual_income (breakdown_of r ti secondary pg rel m) =
     gross_of ti - deductions_of r ti secondary pg"
  "marginal_tax_rate (breakdown_of r ti secondary pg rel m) = round2 m"
  by (simp_all add: breakdown_of_def)

section \<open>Evaluation on the concrete table\<close>

lemma round2_of_int: "round2 (of_int n) = of_int n"
  by (simp add: round2_def round_half_even_def)

lemma round2_numerals:
  "round2 28 = 28" "round2 42 = 42" "round2 47 = 47" "round2 62 = 62"
  using round2_of_int [of 28] round2_of_int [of 42] round2_of_int [of 47]
    round2_of_int [of 62]
  by simp_all

lemmas marginal_defs = calculate_marginal_rate_def income_tax_marginal_at_def
  ni_marginal_at_def sl_marginal_at_def calculate_personal_allowance_def
  band_max_or_inf_def taper_override_def default_rates_def filer_def

text \<open>A filer without loans or pension gets a breakdown as soon as the marginal rate is defined.\<close>

lemma calculate_filer:
  assumes "0 \<le> g" and "calculate_marginal_rate r g (filer g secondary) = Inr m"
  shows "calculate r (filer g secondary) =
           Inr (breakdown_of r (filer g secondary) secondary 0 0 m)"
proof (rule calculate_returns)
  have tg: "taxable_gross_of (filer g secondary) = g"
    by (simp add: taxable_gross_of_def gross_of_def filer_def)
  show "calculate_marginal_rate r (taxable_gross_of (filer g secondary))
          (filer g secondary) = Inr m"
    using assms(2) by (simp add: tg)
  show "pension_relief r (salary_sacrifice_pension (filer g secondary))
          (pension_of (filer g secondary))
          (taxable_income_of r secondary (taxable_gross_of (filer g secondary))) = Inr 0"
    by (simp add: pension_relief_def pension_of_def filer_def)
qed (use assms(1) in \<open>simp_all add: filer_def\<close>)


lemma test_marginal_60000:
  "calculate_marginal_rate test_rates 60000 (filer 60000 False) = Inr 42"
  by (simp add: marginal_defs test_rates_def)


lemma calculate_test_60000:
  "calculate test_rates (filer 60000 False) =
     Inr (breakdown_of test_rates (filer 60000 False) False 0 0 42)"
  by (rule calculate_filer [OF _ test_marginal_60000]) simp

section \<open>The input contract\<close>

text \<open>
  C1, as the claim states it: the declared fields of TaxInput are the spec's seven
  and every attribute \<^verbatim>\<open>calculate\<close> reads is declared. It fails twice: the class
  declares \<open>dividend_income\<close> and \<open>rental_income\<close>, and it does not declare
  \<open>is_secondary_job\<close>, which \<^verbatim>\<open>calculate\<close> reads.
\<close>

theorem TaxInput_fields_counterexample:
  "\<not> (set TaxInput_fields = set spec_TaxInput_fields \<and>
      set calculate_reads \<subseteq> set TaxInput_fields)"
  by (simp add: TaxInput_fields_def spec_TaxInput_fields_def calculate_reads_def)

text \<open>
  C1, amended: leaving \<open>is_secondary_job\<close> aside, the class declares the spec's
  other six fields and, beyond them, \<open>dividend_income\<close> and \<open>rental_income\<close>, which
  the constructor stores; every attribute \<^verbatim>\<open>calculate\<close> reads other than
  \<open>is_secondary_job\<close> is declared; and the plan field admits every member of
  the enum, the postgraduate one included.
\<close>

theorem TaxInput_fields_declared:
  "set TaxInput_fields - {''is_secondary_job''} =
     (set spec_TaxInput_fields - {''is_secondary_job''}) \<union>
     {''dividend_income'', ''rental_income''} \<and>
   set calculate_reads - {''is_secondary_job''} \<subseteq> set TaxInput_fields \<and>
   dividend_income (TaxInput g p pg pct ss bn d e kw) = d \<and>
   rental_income (TaxInput g p pg pct ss bn d e kw) = e \<and>
   student_loan_plan (TaxInput g (Some POSTGRADUATE) pg pct ss bn d e kw) =
     Some POSTGRADUATE"
  by (auto simp add: TaxInput_fields_def spec_TaxInput_fields_def calculate_reads_def
      TaxInput_def)

section \<open>Fields the calculator never reads\<close>

text \<open>
  C10: two inputs that differ only in \<open>dividend_income\<close> and \<open>rental_income\<close> give
  the same result, breakdown or error, on every rate table.
\<close>

theorem dividend_rental_irrelevant:
  "calculate r (ti\<lparr>dividend_income := d, rental_income := e\<rparr>) = calculate r ti"
proof -
  let ?ti' = "ti\<lparr>dividend_income := d, rental_income := e\<rparr>"
  have loans: "sl_marginal_at r ?ti' g = sl_marginal_at r ti g" for g
    by (simp add: sl_marginal_at_def)
  have marginal: "calculate_marginal_rate r g ?ti' = calculate_marginal_rate r g ti" for g
    unfolding calculate_marginal_rate_def loans by simp
  have vals: "gross_of ?ti' = gross_of ti" "pension_of ?ti' = pension_of ti"
    "taxable_gross_of ?ti' = taxable_gross_of ti"
    by (simp_all add: gross_of_def pension_of_def taxable_gross_of_def)
  have bd: "breakdown_of r ?ti' secondary pg rel m = breakdown_of r ti secondary pg rel m"
    for secondary pg rel m
    by (simp add: breakdown_of_def deductions_of_def vals)
  have body: "calculate_body r ?ti' secondary = calculate_body r ti secondary" for secondary
    unfolding calculate_body_eq vals marginal bd by (simp cong: sum.case_cong if_cong)
  show ?thesis
    unfolding calculate_def body by simp
qed

section \<open>Validation and the attribute the class does not declare\<close>

lemma steps_no_ValueError:
  "calculate_postgraduate_loan r x \<noteq> Inl (ValueError msg)"
  "pension_relief r ss pc x \<noteq> Inl (ValueError msg)"
  "calculate_marginal_rate r x ti \<noteq> Inl (ValueError msg)"
  by (auto simp: calculate_postgraduate_loan_def pension_relief_def band_max_at_def
      calculate_marginal_rate_def sl_marginal_at_def Let_def
      split: sum.splits option.splits if_splits)

lemma calculate_body_no_ValueError: "calculate_body r ti secondary \<noteq> Inl (ValueError msg)"
  unfolding calculate_body_eq
  by (auto simp: steps_no_ValueError split: sum.splits)

text \<open>
  The three checks of lines 20 to 25 are the only source of a ValueError, they
  fire exactly on a negative salary, a negative bonus or a percentage outside
  0 to 100, and then nothing else has been computed.
\<close>

lemma calculate_rejects_iff:
  "(\<exists>msg. calculate r ti = Inl (ValueError msg)) \<longleftrightarrow>
     gross_salary ti < 0 \<or> bonus ti < 0 \<or>
     pension_contribution_percent ti < 0 \<or> 100 < pension_contribution_percent ti"
  by (auto simp: calculate_def calculate_body_no_ValueError split: option.splits)

text \<open>
  An object that has the attribute and passes the three checks gets a breakdown,
  on every table whose first two bands have an upper bound and which has a
  postgraduate entry: nothing else in \<^verbatim>\<open>calculate\<close> can fail.
\<close>

lemma calculate_total:
  assumes "is_secondary_job ti = Some secondary"
    and "0 \<le> gross_salary ti" and "0 \<le> bonus ti"
    and "0 \<le> pension_contribution_percent ti" and "pension_contribution_percent ti \<le> 100"
    and "band_max_at r 0 = Inr max0" and "band_max_at r 1 = Inr max1"
    and "student_loans r ''postgraduate'' = Some e"
  shows "\<exists>b. calculate r ti = Inr b"
proof -
  have "(if has_postgraduate_loan ti
      then calculate_postgraduate_loan r (taxable_gross_of ti) else Inr 0) \<noteq> Inl err" for err
    using assms(8) by (simp add: calculate_postgraduate_loan_def)
  then obtain pg where pg: "(if has_postgraduate_loan ti
      then calculate_postgraduate_loan r (taxable_gross_of ti) else Inr 0) = Inr pg"
    by (meson sum.exhaust)
  have "pension_relief r (salary_sacrifice_pension ti) (pension_of ti)
      (taxable_income_of r secondary (taxable_gross_of ti)) \<noteq> Inl err" for err
    using assms(6,7) by (simp add: pension_relief_def Let_def)
  then obtain rel where rel: "pension_relief r (salary_sacrifice_pension ti) (pension_of ti)
      (taxable_income_of r secondary (taxable_gross_of ti)) = Inr rel"
    by (meson sum.exhaust)
  have "calculate_marginal_rate r (taxable_gross_of ti) ti \<noteq> Inl err" for err
    using assms(1,8)
    by (simp add: calculate_marginal_rate_def sl_marginal_at_def Let_def)
  then obtain m where m: "calculate_marginal_rate r (taxable_gross_of ti) ti = Inr m"
    by (meson sum.exhaust)
  from calculate_returns [OF assms(1-5) pg rel m] show ?thesis by blast
qed

text \<open>
  C5, the failing input: the instance that \<^verbatim>\<open>TaxInput(gross_salary=20000,
  is_secondary_job=False)\<close> builds, as the test-suite does, passes the three checks
  and \<^verbatim>\<open>calculate\<close> raises AttributeError at line 39, on every rate table.
\<close>

theorem calculate_TaxInput_AttributeError:
  "calculate r (TaxInput 20000 None False 0 False 0 0 0 (Some False)) =
     Inl (AttributeError ''is_secondary_job'')"
  by (simp add: calculate_def TaxInput_def TaxInput_fields_def)

section \<open>An absent or unknown loan plan\<close>

lemma StudentLoanPlan_of_value_invalid:
  assumes "s \<notin> StudentLoanPlan_value ` set StudentLoanPlan_members"
  shows "StudentLoanPlan_of_value s =
           Inl (ValueError (not_a_valid_plan s))"
proof -
  have "find (\<lambda>p. StudentLoanPlan_value p = s) StudentLoanPlan_members = None"
    using assms by (auto simp: find_None_iff)
  then show ?thesis by (simp add: StudentLoanPlan_of_value_def)
qed

text \<open>
  C9, as the claim states it, at the wrapper: a plan string that is no member of
  the enum does not give a zero repayment, it raises ValueError.
\<close>

theorem unrecognised_plan_string_counterexample:
  "calculate_uk_tax test_rates 30000 (Some ''plan_9'') False 0 False 0 False =
     Inl (ValueError (not_a_valid_plan ''plan_9''))"
  by (simp add: calculate_uk_tax_def StudentLoanPlan_of_value_def
      StudentLoanPlan_members_def)

text \<open>
  C9, amended: in \<^verbatim>\<open>_calculate_student_loan\<close> an absent plan, and a plan the rate
  table has no entry for, give a repayment of zero at every gross figure; so does
  every breakdown \<^verbatim>\<open>calculate\<close> returns for such an input; and
  \<^verbatim>\<open>calculate_uk_tax\<close>, given a non-empty plan string that is no member of the
  enum, raises ValueError.
\<close>

theorem absent_or_unknown_plan:
  "calculate_student_loan r gross None = 0 \<and>
   (student_loans r (StudentLoanPlan_value p) = None \<longrightarrow>
      calculate_student_loan r gross (Some p) = 0) \<and>
   (calculate r ti = Inr b \<and>
    (case student_loan_plan ti of None \<Rightarrow> True
     | Some q \<Rightarrow> student_loans r (StudentLoanPlan_value q) = None) \<longrightarrow>
      student_loan_repayment b = 0) \<and>
   (s \<noteq> [] \<and> s \<notin> StudentLoanPlan_value ` set StudentLoanPlan_members \<longrightarrow>
      calculate_uk_tax r g (Some s) pg pct ss bn sj =
        Inl (ValueError (not_a_valid_plan s)))"
proof (intro conjI impI)
  show "calculate_student_loan r gross None = 0"
    by (simp add: calculate_student_loan_def)
  show "calculate_student_loan r gross (Some p) = 0"
    if "student_loans r (StudentLoanPlan_value p) = None"
    using that by (simp add: calculate_student_loan_def)
  show "student_loan_repayment b = 0"
    if h: "calculate r ti = Inr b \<and>
      (case student_loan_plan ti of None \<Rightarrow> True
       | Some q \<Rightarrow> student_loans r (StudentLoanPlan_value q) = None)"
  proof -
    from h obtain secondary pg' rel m where "b = breakdown_of r ti secondary pg' rel m"
      by (blast elim: calculate_InrE)
    moreover have "calculate_student_loan r x (student_loan_plan ti) = 0" for x
      using h by (cases "student_loan_plan ti") (simp_all add: calculate_student_loan_def)
    ultimately show ?thesis by (simp add: breakdown_of_fields)
  qed
  show "calculate_uk_tax r g (Some s) pg pct ss bn sj =
        Inl (ValueError (not_a_valid_plan s))"
    if "s \<noteq> [] \<and> s \<notin> StudentLoanPlan_value ` set StudentLoanPlan_members"
    using that
    by (simp add: calculate_uk_tax_def StudentLoanPlan_of_value_invalid)
qed

theorem absent_or_unknown_plan_witness:
  "calculate_student_loan test_rates 35000 None = 0 \<and>
   student_loans test_rates (StudentLoanPlan_value PLAN_1) = None \<and>
   calculate_student_loan test_rates 35000 (Some PLAN_1) = 0 \<and>
   (\<exists>b. calculate test_rates (filer 60000 False) = Inr b \<and> student_loan_repayment b = 0) \<and>
   ''plan_9'' \<notin> StudentLoanPlan_value ` set StudentLoanPlan_members \<and>
   calculate_uk_tax test_rates 30000 (Some ''plan_9'') False 0 False 0 False =
     Inl (ValueError (not_a_valid_plan ''plan_9''))"
proof -
  have 1: "student_loans test_rates (StudentLoanPlan_value PLAN_1) = None"
    by (simp add: test_rates_def default_rates_def test_loans_def)
  have 2: "''plan_9'' \<noteq> [] \<and> ''plan_9'' \<notin> StudentLoanPlan_value ` set StudentLoanPlan_members"
    by (simp add: StudentLoanPlan_members_def)
  have 3: "calculate test_rates (filer 60000 False) =
        Inr (breakdown_of test_rates (filer 60000 False) False 0 0 42) \<and>
      (case student_loan_plan (filer 60000 False) of None \<Rightarrow> True
       | Some q \<Rightarrow> student_loans test_rates (StudentLoanPlan_value q) = None)"
    by (simp add: calculate_test_60000) (simp add: filer_def)
  from absent_or_unknown_plan [where r = test_rates and gross = 35000 and p = PLAN_1
      and ti = "filer 60000 False"
      and b = "breakdown_of test_rates (filer 60000 False) False 0 0 42"
      and s = "''plan_9''" and g = 30000 and pg = False and pct = 0 and ss = False
      and bn = 0 and sj = False] 1 2 3
  show ?thesis by blast
qed

section \<open>Marginal rates under the default table\<close>

lemma default_marginal_30000:
  assumes "pt < 30001" and "30001 \<le> uel"
  shows "calculate_marginal_rate (default_rates pt uel loans) 30000 (filer 30000 False) =
           Inr 28"
  using assms by (simp add: marginal_defs)

lemma default_marginal_above_uel:
  assumes "uel < 60001"
  shows "calculate_marginal_rate (default_rates pt uel loans) 60000 (filer 60000 False) =
           Inr 42"
    and "calculate_marginal_rate (default_rates pt uel loans) 99999 (filer 99999 False) =
           Inr 42"
    and "calculate_marginal_rate (default_rates pt uel loans) 100000 (filer 100000 False) =
           Inr 62"
    and "calculate_marginal_rate (default_rates pt uel loans) 125140 (filer 125140 False) =
           Inr 47"
    and "calculate_marginal_rate (default_rates pt uel loans) 110000 (filer 110000 True) =
           Inr 42"
  using assms by (simp_all add: marginal_defs)

lemma filer_marginal:
  assumes "0 \<le> g" and "calculate_marginal_rate r g (filer g secondary) = Inr m"
  shows "\<exists>b. calculate r (filer g secondary) = Inr b \<and> marginal_tax_rate b = round2 m"
  using calculate_filer [OF assms] by (simp add: breakdown_of_fields)

text \<open>
  C3: under the default configuration, with any primary threshold below 30001
  and any upper earnings limit from 30001 up to below 60001, \<^verbatim>\<open>calculate\<close>
  returns a breakdown whose marginal rate is 28 at 30000, 42 at 60000 and at
  99999, 62 at 100000 and 47 at 125140 for a primary-job filer without loans or
  pension, and 42 at 110000 for a secondary-job filer.
\<close>

theorem marginal_rate_boundaries:
  assumes "pt < 30001" and "30001 \<le> uel" and "uel < 60001"
  shows "(\<exists>b. calculate (default_rates pt uel loans) (filer 30000 False) = Inr b \<and>
              marginal_tax_rate b = 28) \<and>
         (\<exists>b. calculate (default_rates pt uel loans) (filer 60000 False) = Inr b \<and>
              marginal_tax_rate b = 42) \<and>
         (\<exists>b. calculate (default_rates pt uel loans) (filer 99999 False) = Inr b \<and>
              marginal_tax_rate b = 42) \<and>
         (\<exists>b. calculate (default_rates pt uel loans) (filer 100000 False) = Inr b \<and>
              marginal_tax_rate b = 62) \<and>
         (\<exists>b. calculate (default_rates pt uel loans) (filer 125140 False) = Inr b \<and>
              marginal_tax_rate b = 47) \<and>
         (\<exists>b. calculate (default_rates pt uel loans) (filer 110000 True) = Inr b \<and>
              marginal_tax_rate b = 42)"
proof -
  note m = default_marginal_30000 [OF assms(1,2), of loans]
    default_marginal_above_uel [OF assms(3), of pt loans]
  show ?thesis
    using m [THEN filer_marginal [rotated]] by (simp add: round2_numerals)
qed

theorem marginal_rate_boundaries_witness:
  "(12570::real) < 30001 \<and> (30001::real) \<le> 50270 \<and> (50270::real) < 60001 \<and>
   (\<exists>b. calculate test_rates (filer 30000 False) = Inr b \<and> marginal_tax_rate b = 28) \<and>
   (\<exists>b. calculate test_rates (filer 100000 False) = Inr b \<and> marginal_tax_rate b = 62) \<and>
   (\<exists>b. calculate test_rates (filer 110000 True) = Inr b \<and> marginal_tax_rate b = 42)"
  using marginal_rate_boundaries [of 12570 50270 test_loans]
  by (simp add: test_rates_def)

section \<open>The allowance-taper override of the marginal rate\<close>

lemma small_allowance_marginal:
  "calculate_marginal_rate small_allowance_rates 122000 (filer 122000 False) = Inr 62"
  "calculate_marginal_rate small_allowance_rates 122000 (filer 122000 True) = Inr 42"
  by (simp_all add: marginal_defs small_allowance_rates_def test_rates_def)

lemma small_allowance_deductions:
  "deductions_of small_allowance_rates (filer 122001 False) False 0 -
   deductions_of small_allowance_rates (filer 122000 False) False 0 = 42 / 100"
  by (simp add: deductions_of_def income_tax_total_def calculate_income_tax_def
      calculate_ni_def calculate_student_loan_def taxable_income_of_def
      taxable_gross_of_def gross_of_def pension_of_def calculate_personal_allowance_def
      band_max_or_inf_def filer_def small_allowance_rates_def test_rates_def
      default_rates_def)

text \<open>
  C4, the failing input: a table with allowance 10000 and taper threshold
  100000, on which the allowance is tapered away at 120000, and a primary-job
  filer without loans or pension at a gross salary of 122000. The claim puts
  gross plus one outside the range of the override, since 122001 is above
  100000 + 2 * 10000; \<^verbatim>\<open>_calculate_personal_allowance\<close> already gives an
  allowance of 0 at 122000 and at 122001, and one more pound of salary raises
  the deductions \<^verbatim>\<open>calculate\<close> itself computes by 0.42. Yet the override of
  lines 242 to 246 fires, because its upper bound is the constant 125140, and
  the breakdown reports a marginal rate of 62 where the band rate and National
  Insurance make 42, as they do for the secondary-job filer.
\<close>

theorem taper_override_failing_input:
  "personal_allowance_taper_threshold small_allowance_rates +
     2 * personal_allowance small_allowance_rates = 120000 \<and>
   calculate_personal_allowance small_allowance_rates 122000 = 0 \<and>
   calculate_personal_allowance small_allowance_rates 122001 = 0 \<and>
   deductions_of small_allowance_rates (filer 122001 False) False 0 -
     deductions_of small_allowance_rates (filer 122000 False) False 0 = 42 / 100 \<and>
   taper_override small_allowance_rates False (122000 + 1) \<and>
   calculate small_allowance_rates (filer 122000 False) =
     Inr (breakdown_of small_allowance_rates (filer 122000 False) False 0 0 62) \<and>
   marginal_tax_rate (breakdown_of small_allowance_rates (filer 122000 False) False 0 0 62) =
     62 \<and>
   total_deductions (breakdown_of small_allowance_rates (filer 122000 False) False 0 0 62) =
     deductions_of small_allowance_rates (filer 122000 False) False 0 \<and>
   calculate_marginal_rate small_allowance_rates 122000 (filer 122000 True) = Inr 42"
proof -
  have t: "personal_allowance_taper_threshold small_allowance_rates +
      2 * personal_allowance small_allowance_rates = 120000"
    "calculate_personal_allowance small_allowance_rates 122000 = 0"
    "calculate_personal_allowance small_allowance_rates 122001 = 0"
    "taper_override small_allowance_rates False (122000 + 1)"
    by (simp_all add: small_allowance_rates_def test_rates_def default_rates_def
        calculate_personal_allowance_def taper_override_def)
  have c: "calculate small_allowance_rates (filer 122000 False) =
      Inr (breakdown_of small_allowance_rates (filer 122000 False) False 0 0 62)"
    by (rule calculate_filer [OF _ small_allowance_marginal(1)]) simp
  have m: "marginal_tax_rate
      (breakdown_of small_allowance_rates (filer 122000 False) False 0 0 62) = 62"
    using round2_of_int [of 62] by (simp add: breakdown_of_fields)
  show ?thesis
    using t c m small_allowance_deductions small_allowance_marginal(2)
    by (simp add: breakdown_of_fields)
qed

section \<open>Pension tax relief\<close>

text \<open>
  C6: in a breakdown \<^verbatim>\<open>calculate\<close> returns, the relief is zero under salary
  sacrifice and when there is no contribution. Otherwise, with \<open>max0\<close> the upper
  bound of the first band and \<open>max1\<close> that of the second: the relief is zero when
  the taxable income does not exceed \<open>max0\<close>; above it, the relief is 20 percent
  of the smaller of the contribution and the taxable income above \<open>max0\<close>, plus,
  when the taxable income exceeds \<open>max1\<close>, 5 percent of the smaller of the
  contribution and the taxable income above \<open>max1\<close>.
\<close>

theorem pension_tax_relief_formula:
  assumes "calculate r ti = Inr b"
  shows "(salary_sacrifice_pension ti \<or> pension_contribution b \<le> 0 \<longrightarrow>
            pension_tax_relief b = 0) \<and>
         (\<not> salary_sacrifice_pension ti \<and> 0 < pension_contribution b \<longrightarrow>
            (\<exists>max0. band_max_at r 0 = Inr max0 \<and>
               (taxable_income b \<le> max0 \<longrightarrow> pension_tax_relief b = 0) \<and>
               (max0 < taxable_income b \<longrightarrow>
                  (\<exists>max1. band_max_at r 1 = Inr max1 \<and>
                     pension_tax_relief b =
                       0.20 * min (pension_contribution b) (taxable_income b - max0) +
                       (if max1 < taxable_income b
                        then 0.05 * min (pension_contribution b) (taxable_income b - max1)
                        else 0)))))"
proof -
  from assms obtain secondary pg rel m where
    rel: "pension_relief r (salary_sacrifice_pension ti) (pension_of ti)
           (taxable_income_of r secondary (taxable_gross_of ti)) = Inr rel"
    and b: "b = breakdown_of r ti secondary pg rel m"
    by (rule calculate_InrE)
  have f: "pension_contribution b = pension_of ti" "pension_tax_relief b = rel"
    "taxable_income b = taxable_income_of r secondary (taxable_gross_of ti)"
    by (simp_all add: b breakdown_of_fields)
  from rel show ?thesis
    unfolding f pension_relief_def Let_def
    by (auto split: if_splits sum.splits)
qed

lemma pension_filer_values:
  "taxable_gross_of (pension_filer 60000 5 False) = 60000"
  "taxable_gross_of (pension_filer 60000 5 True) = 57000"
  "pension_of (pension_filer 60000 5 ss) = 3000"
  "taxable_income_of test_rates False 60000 = 47430"
  "taxable_income_of test_rates False 57000 = 44430"
  by (simp_all add: taxable_gross_of_def pension_of_def gross_of_def pension_filer_def
      taxable_income_of_def calculate_personal_allowance_def test_rates_def
      default_rates_def)

lemma calculate_test_pension:
  "calculate test_rates (pension_filer 60000 5 False) =
     Inr (breakdown_of test_rates (pension_filer 60000 5 False) False 0 600 42)"
proof (rule calculate_returns)
  show "pension_relief test_rates (salary_sacrifice_pension (pension_filer 60000 5 False))
          (pension_of (pension_filer 60000 5 False))
          (taxable_income_of test_rates False
             (taxable_gross_of (pension_filer 60000 5 False))) = Inr 600"
    unfolding pension_filer_values
    by (simp add: pension_relief_def band_max_at_def pension_filer_def test_rates_def
        default_rates_def)
  show "calculate_marginal_rate test_rates (taxable_gross_of (pension_filer 60000 5 False))
          (pension_filer 60000 5 False) = Inr 42"
    unfolding pension_filer_values
    by (simp add: marginal_defs pension_filer_def test_rates_def)
qed (simp_all add: pension_filer_def)

lemma calculate_test_sacrifice:
  "calculate test_rates (pension_filer 60000 5 True) =
     Inr (breakdown_of test_rates (pension_filer 60000 5 True) False 0 0 42)"
proof (rule calculate_returns)
  show "pension_relief test_rates (salary_sacrifice_pension (pension_filer 60000 5 True))
          (pension_of (pension_filer 60000 5 True))
          (taxable_income_of test_rates False
             (taxable_gross_of (pension_filer 60000 5 True))) = Inr 0"
    by (simp add: pension_relief_def pension_filer_def)
  show "calculate_marginal_rate test_rates (taxable_gross_of (pension_filer 60000 5 True))
          (pension_filer 60000 5 True) = Inr 42"
    unfolding pension_filer_values
    by (simp add: marginal_defs pension_filer_def test_rates_def)
qed (simp_all add: pension_filer_def)

theorem pension_tax_relief_formula_witness:
  "\<exists>b. calculate test_rates (pension_filer 60000 5 False) = Inr b \<and>
       \<not> salary_sacrifice_pension (pension_filer 60000 5 False) \<and>
       pension_contribution b = 3000 \<and> taxable_income b = 47430 \<and>
       band_max_at test_rates 0 = Inr 37700 \<and> band_max_at test_rates 1 = Inr 125140 \<and>
       pension_tax_relief b = 0.20 * min 3000 (47430 - 37700) \<and>
       pension_tax_relief b = 600"
proof -
  let ?b = "breakdown_of test_rates (pension_filer 60000 5 False) False 0 600 42"
  have v: "pension_contribution ?b = 3000" "taxable_income ?b = 47430"
    "pension_tax_relief ?b = 600"
    by (simp_all add: breakdown_of_fields pension_filer_values)
  have t: "band_max_at test_rates 0 = Inr 37700" "band_max_at test_rates 1 = Inr 125140"
    by (simp_all add: band_max_at_def test_rates_def default_rates_def)
  from pension_tax_relief_formula [OF calculate_test_pension] v t calculate_test_pension
  show ?thesis by (simp add: pension_filer_def)
qed

section \<open>Monotonicity of the parts\<close>

lemma income_tax_loop_band_tax:
  "income_tax_loop bs remaining (basic, higher, additional) =
     (band_tax ''Basic Rate'' bs remaining basic,
      band_tax ''Higher Rate'' bs remaining higher,
      band_tax ''Additional Rate'' bs remaining additional)"
  by (induction bs arbitrary: remaining basic higher additional)
     (simp_all add: Let_def taxable_in_band_of_def)

lemma income_tax_total_band_tax:
  "income_tax_total r x =
     band_tax ''Basic Rate'' (bands r) x 0 + band_tax ''Higher Rate'' (bands r) x 0 +
     band_tax ''Additional Rate'' (bands r) x 0"
  by (simp add: income_tax_total_def calculate_income_tax_def income_tax_loop_band_tax)

lemma taxable_in_band_nonneg:
  "band_ok b \<Longrightarrow> 0 < x \<Longrightarrow> 0 \<le> taxable_in_band_of b x"
  by (auto simp: band_ok_def taxable_in_band_of_def split: option.splits)

lemma taxable_in_band_mono:
  "x \<le> y \<Longrightarrow> taxable_in_band_of b x \<le> taxable_in_band_of b y"
  by (auto simp: taxable_in_band_of_def split: option.splits)

lemma remaining_mono:
  "x \<le> y \<Longrightarrow> x - taxable_in_band_of b x \<le> y - taxable_in_band_of b y"
  by (auto simp: taxable_in_band_of_def split: option.splits)

lemma band_tax_absent:
  "n \<notin> set (map band_name bs) \<Longrightarrow> band_tax n bs x v = v"
  by (induction bs arbitrary: x) auto

lemma band_tax_nonneg:
  "list_all band_ok bs \<Longrightarrow> 0 \<le> v \<Longrightarrow> 0 \<le> band_tax n bs x v"
proof (induction bs arbitrary: x v)
  case Nil
  then show ?case by simp
next
  case (Cons b bs)
  show ?case
  proof (cases "x \<le> 0")
    case True
    with Cons.prems show ?thesis by simp
  next
    case False
    with Cons.prems have "0 \<le> taxable_in_band_of b x * band_rate b"
      by (simp add: taxable_in_band_nonneg band_ok_def)
    with False Cons.prems Cons.IH show ?thesis by simp
  qed
qed

lemma band_tax_mono:
  assumes "list_all band_ok bs" and "distinct (map band_name bs)" and "x \<le> y"
  shows "band_tax n bs x 0 \<le> band_tax n bs y 0"
  using assms
proof (induction bs arbitrary: x y)
  case Nil
  then show ?case by simp
next
  case (Cons b bs)
  from Cons.prems have ok: "band_ok b" "list_all band_ok bs"
    and dist: "band_name b \<notin> set (map band_name bs)" "distinct (map band_name bs)"
    by simp_all
  consider "y \<le> 0" | "x \<le> 0" "0 < y" | "0 < x"
    by linarith
  then show ?case
  proof cases
    case 1
    with Cons.prems(3) show ?thesis by simp
  next
    case 2
    have "0 \<le> taxable_in_band_of b y * band_rate b"
      using ok(1) 2(2) by (simp add: taxable_in_band_nonneg band_ok_def)
    then have "0 \<le> band_tax n bs (y - taxable_in_band_of b y)
        (if band_name b = n then taxable_in_band_of b y * band_rate b else 0)"
      using ok(2) by (intro band_tax_nonneg) simp_all
    with 2 show ?thesis by simp
  next
    case 3
    with Cons.prems(3) have y: "0 < y" by simp
    show ?thesis
    proof (cases "band_name b = n")
      case True
      with dist(1) have "n \<notin> set (map band_name bs)" by simp
      then have "band_tax n (b # bs) x 0 = taxable_in_band_of b x * band_rate b"
        "band_tax n (b # bs) y 0 = taxable_in_band_of b y * band_rate b"
        using 3 y True by (simp_all add: band_tax_absent)
      moreover have "taxable_in_band_of b x * band_rate b \<le>
          taxable_in_band_of b y * band_rate b"
        using ok(1) Cons.prems(3)
        by (intro mult_right_mono taxable_in_band_mono) (simp_all add: band_ok_def)
      ultimately show ?thesis by simp
    next
      case False
      have "band_tax n bs (x - taxable_in_band_of b x) 0 \<le>
            band_tax n bs (y - taxable_in_band_of b y) 0"
        using ok(2) dist(2) Cons.prems(3) by (intro Cons.IH remaining_mono)
      with False 3 y show ?thesis by simp
    qed
  qed
qed

lemma income_tax_total_mono:
  assumes "rates_ok r" and "x \<le> y"
  shows "income_tax_total r x \<le> income_tax_total r y"
proof -
  from assms(1) have "list_all band_ok (bands r)" "distinct (map band_name (bands r))"
    by (simp_all add: rates_ok_def)
  from band_tax_mono [OF this assms(2)] show ?thesis
    unfolding income_tax_total_band_tax by (intro add_mono)
qed

lemma taxable_income_of_mono:
  assumes "rates_ok r" and "x \<le> y"
  shows "taxable_income_of r secondary x \<le> taxable_income_of r secondary y"
proof -
  let ?pa = "personal_allowance r" and ?thr = "personal_allowance_taper_threshold r"
  from assms(1) have pa: "0 \<le> ?pa" by (simp add: rates_ok_def)
  have "x - calculate_personal_allowance r x \<le> y - calculate_personal_allowance r y"
  proof -
    consider "y \<le> ?thr" | "x \<le> ?thr" "?thr < y" | "?thr < x"
      by linarith
    then show ?thesis
    proof cases
      case 1
      with assms(2) show ?thesis
        by (simp add: calculate_personal_allowance_def)
    next
      case 2
      then have "calculate_personal_allowance r x = ?pa"
        "calculate_personal_allowance r y = max 0 (?pa - (y - ?thr) / 2)"
        by (simp_all add: calculate_personal_allowance_def)
      with 2 pa assms(2) show ?thesis by (simp add: max_def field_simps)
    next
      case 3
      with assms(2) have "calculate_personal_allowance r x = max 0 (?pa - (x - ?thr) / 2)"
        "calculate_personal_allowance r y = max 0 (?pa - (y - ?thr) / 2)"
        by (simp_all add: calculate_personal_allowance_def)
      with 3 pa assms(2) show ?thesis by (simp add: max_def field_simps)
    qed
  qed
  with assms(2) show ?thesis
    unfolding taxable_income_of_def by (cases secondary) simp_all
qed

lemma calculate_ni_nonneg:
  assumes "rates_ok r"
  shows "0 \<le> calculate_ni r x"
proof -
  from assms have ok: "primary_threshold_annual r \<le> upper_earnings_limit r"
    "0 \<le> rate_between_thresholds r" "0 \<le> rate_above_uel r"
    by (simp_all add: rates_ok_def)
  show ?thesis
  proof (cases "x \<le> primary_threshold_annual r")
    case True
    then show ?thesis by (simp add: calculate_ni_def)
  next
    case False
    with ok have "0 \<le> (min x (upper_earnings_limit r) - primary_threshold_annual r) *
        rate_between_thresholds r"
      by (intro mult_nonneg_nonneg) simp_all
    moreover have "0 \<le> (if upper_earnings_limit r < x
        then (x - upper_earnings_limit r) * rate_above_uel r else 0)"
      using ok by simp
    ultimately show ?thesis using False by (simp add: calculate_ni_def Let_def)
  qed
qed

lemma calculate_ni_mono:
  assumes "rates_ok r" and "x \<le> y"
  shows "calculate_ni r x \<le> calculate_ni r y"
proof (cases "x \<le> primary_threshold_annual r")
  case True
  then have "calculate_ni r x = 0" by (simp add: calculate_ni_def)
  with calculate_ni_nonneg [OF assms(1)] show ?thesis by simp
next
  case False
  from assms(1) have ok: "0 \<le> rate_between_thresholds r" "0 \<le> rate_above_uel r"
    by (simp_all add: rates_ok_def)
  have main: "(min x (upper_earnings_limit r) - primary_threshold_annual r) *
        rate_between_thresholds r \<le>
      (min y (upper_earnings_limit r) - primary_threshold_annual r) *
        rate_between_thresholds r"
    using assms(2) ok(1) by (intro mult_right_mono) simp_all
  have upper: "(if upper_earnings_limit r < x
        then (x - upper_earnings_limit r) * rate_above_uel r else 0) \<le>
      (if upper_earnings_limit r < y
        then (y - upper_earnings_limit r) * rate_above_uel r else 0)"
    using assms(2) ok(2) by (auto intro: mult_right_mono mult_nonneg_nonneg)
  from False assms(2) have "\<not> y \<le> primary_threshold_annual r" by simp
  with False main upper show ?thesis
    by (simp add: calculate_ni_def Let_def add_mono)
qed

lemma loan_ok_member:
  assumes "rates_ok r"
  shows "loan_ok r p"
proof -
  have "p \<in> set StudentLoanPlan_members"
    by (cases p) (simp_all add: StudentLoanPlan_members_def)
  with assms show ?thesis by (simp add: rates_ok_def list_all_iff)
qed

lemma calculate_student_loan_mono:
  assumes "rates_ok r" and "x \<le> y"
  shows "calculate_student_loan r x plan \<le> calculate_student_loan r y plan"
proof (cases plan)
  case None
  then show ?thesis by (simp add: calculate_student_loan_def)
next
  case (Some p)
  show ?thesis
  proof (cases "student_loans r (StudentLoanPlan_value p)")
    case None
    with Some show ?thesis by (simp add: calculate_student_loan_def)
  next
    case (Some e)
    with loan_ok_member [OF assms(1), of p] have "0 \<le> loan_rate e"
      by (simp add: loan_ok_def)
    with assms(2) \<open>plan = Some p\<close> Some show ?thesis
      by (auto simp: calculate_student_loan_def intro: mult_right_mono mult_nonneg_nonneg)
  qed
qed

lemma calculate_postgraduate_loan_mono:
  assumes "rates_ok r" and "x \<le> y"
    and "calculate_postgraduate_loan r x = Inr a"
    and "calculate_postgraduate_loan r y = Inr b"
  shows "a \<le> b"
proof -
  from assms(3) obtain e where e: "student_loans r ''postgraduate'' = Some e"
    by (auto simp: calculate_postgraduate_loan_def split: option.splits)
  with loan_ok_member [OF assms(1), of POSTGRADUATE] have "0 \<le> loan_rate e"
    by (simp add: loan_ok_def)
  with assms(2-4) e show ?thesis
    by (auto simp: calculate_postgraduate_loan_def split: if_splits
        intro: mult_right_mono mult_nonneg_nonneg)
qed

text \<open>
  The deductions that depend on the taxable gross only: they grow with it, when
  the postgraduate step returns at both figures.
\<close>

lemma gross_parts_mono:
  assumes ok: "rates_ok r" and le: "x \<le> y"
    and pg: "(if has_pg then calculate_postgraduate_loan r x else Inr 0) = Inr a"
    and pg': "(if has_pg then calculate_postgraduate_loan r y else Inr 0) = Inr b"
  shows "income_tax_total r (taxable_income_of r secondary x) \<le>
           income_tax_total r (taxable_income_of r secondary y)"
    and "calculate_ni r x \<le> calculate_ni r y"
    and "calculate_student_loan r x plan \<le> calculate_student_loan r y plan"
    and "a \<le> b"
proof -
  show "income_tax_total r (taxable_income_of r secondary x) \<le>
           income_tax_total r (taxable_income_of r secondary y)"
    by (intro income_tax_total_mono taxable_income_of_mono ok le)
  show "calculate_ni r x \<le> calculate_ni r y"
    by (rule calculate_ni_mono [OF ok le])
  show "calculate_student_loan r x plan \<le> calculate_student_loan r y plan"
    by (rule calculate_student_loan_mono [OF ok le])
  show "a \<le> b"
  proof (cases has_pg)
    case True
    with pg pg' show ?thesis
      by (intro calculate_postgraduate_loan_mono [OF ok le]) simp_all
  next
    case False
    with pg pg' show ?thesis by simp
  qed
qed

lemma rates_ok_test_rates: "rates_ok test_rates"
  by (simp add: rates_ok_def band_ok_def loan_ok_def band_max_or_inf_def test_rates_def
      default_rates_def test_loans_def StudentLoanPlan_members_def)

text \<open>The default configuration is well formed, whatever its loan thresholds.\<close>

lemma rates_ok_default_rates:
  assumes "pt \<le> uel" and "list_all (loan_ok (default_rates pt uel loans)) StudentLoanPlan_members"
  shows "rates_ok (default_rates pt uel loans)"
  using assms
  by (simp add: rates_ok_def band_ok_def band_max_or_inf_def default_rates_def)

section \<open>Monotonicity in the gross salary\<close>



section \<open>Salary sacrifice against relief at source\<close>

text \<open>
  C8: on a well-formed rate table, of the two breakdowns \<^verbatim>\<open>calculate\<close> returns
  for an input with salary sacrifice on and for the same input with it off, the
  first has no more income tax, no more National Insurance and no less net
  annual income than the second.
\<close>

theorem salary_sacrifice_comparison:
  assumes ok: "rates_ok r"
    and s: "calculate r (ti\<lparr>salary_sacrifice_pension := True\<rparr>) = Inr bs"
    and n: "calculate r (ti\<lparr>salary_sacrifice_pension := False\<rparr>) = Inr bn"
  shows "total_income_tax bs \<le> total_income_tax bn \<and>
         ni_contributions bs \<le> ni_contributions bn \<and>
         net_annual_income bn \<le> net_annual_income bs"
proof -
  let ?s = "ti\<lparr>salary_sacrifice_pension := True\<rparr>"
  let ?n = "ti\<lparr>salary_sacrifice_pension := False\<rparr>"
  from s obtain secondary pg rel m where
    sec: "is_secondary_job ?s = Some secondary"
    and v: "0 \<le> gross_salary ?s" "0 \<le> bonus ?s" "0 \<le> pension_contribution_percent ?s"
    and pg: "(if has_postgraduate_loan ?s
          then calculate_postgraduate_loan r (taxable_gross_of ?s) else Inr 0) = Inr pg"
    and bs: "bs = breakdown_of r ?s secondary pg rel m"
    by (rule calculate_InrE)
  from n obtain secondary' pg' rel' m' where
    sec': "is_secondary_job ?n = Some secondary'"
    and pg': "(if has_postgraduate_loan ?n
          then calculate_postgraduate_loan r (taxable_gross_of ?n) else Inr 0) = Inr pg'"
    and bn: "bn = breakdown_of r ?n secondary' pg' rel' m'"
    by (rule calculate_InrE)
  from sec sec' have same: "secondary' = secondary" by simp
  have gross: "gross_of ?s = gross_of ?n" "pension_of ?s = pension_of ?n"
    by (simp_all add: gross_of_def pension_of_def)
  have pension: "0 \<le> pension_of ?n"
    using v by (simp add: pension_of_def gross_of_def)
  then have tg: "taxable_gross_of ?s \<le> taxable_gross_of ?n"
    by (simp add: taxable_gross_of_def gross)
  from pg have pg1: "(if has_postgraduate_loan ti
          then calculate_postgraduate_loan r (taxable_gross_of ?s) else Inr 0) = Inr pg"
    by simp
  from pg' have pg2: "(if has_postgraduate_loan ti
          then calculate_postgraduate_loan r (taxable_gross_of ?n) else Inr 0) = Inr pg'"
    by simp
  note parts = gross_parts_mono [OF ok tg pg1 pg2]
  have "deductions_of r ?s secondary pg \<le> deductions_of r ?n secondary pg'"
    unfolding deductions_of_def
    using parts(1) [of secondary] parts(2) parts(3) [of "student_loan_plan ti"] parts(4)
      pension
    by simp
  with parts(1,2) show ?thesis
    by (simp add: bs bn same breakdown_of_fields gross)
qed

theorem salary_sacrifice_comparison_witness:
  "rates_ok test_rates \<and>
   (\<exists>bs bn.
      calculate test_rates
        ((pension_filer 60000 5 False)\<lparr>salary_sacrifice_pension := True\<rparr>) = Inr bs \<and>
      calculate test_rates
        ((pension_filer 60000 5 False)\<lparr>salary_sacrifice_pension := False\<rparr>) = Inr bn \<and>
      total_income_tax bs \<le> total_income_tax bn \<and>
      ni_contributions bs \<le> ni_contributions bn \<and>
      net_annual_income bn \<le> net_annual_income bs)"
proof -
  have u: "(pension_filer 60000 5 False)\<lparr>salary_sacrifice_pension := True\<rparr> =
      pension_filer 60000 5 True"
    "(pension_filer 60000 5 False)\<lparr>salary_sacrifice_pension := False\<rparr> =
      pension_filer 60000 5 False"
    by (simp_all add: pension_filer_def)
  have cs: "calculate test_rates
        ((pension_filer 60000 5 False)\<lparr>salary_sacrifice_pension := True\<rparr>) =
      Inr (breakdown_of test_rates (pension_filer 60000 5 True) False 0 0 42)"
    using calculate_test_sacrifice by (simp only: u)
  have cn: "calculate test_rates
        ((pension_filer 60000 5 False)\<lparr>salary_sacrifice_pension := False\<rparr>) =
      Inr (breakdown_of test_rates (pension_filer 60000 5 False) False 0 600 42)"
    using calculate_test_pension by (simp only: u)
  from salary_sacrifice_comparison [OF rates_ok_test_rates cs cn]
    rates_ok_test_rates cs cn
  show ?thesis by blast
qed

section \<open>The two models\<close>

text \<open>With the identity for the rounding, the rounded model is the exact one.\<close>

lemma income_tax_loop_fl_exact:
  "income_tax_loop_fl (\<lambda>x. x) bs remaining acc = income_tax_loop bs remaining acc"
  by (induction bs remaining acc rule: income_tax_loop.induct) (simp_all add: Let_def)

lemma parts_fl_exact:
  "calculate_personal_allowance_fl (\<lambda>x. x) r g = calculate_personal_allowance r g"
  "calculate_income_tax_fl (\<lambda>x. x) r g = calculate_income_tax r g"
  "calculate_ni_fl (\<lambda>x. x) r g = calculate_ni r g"
  "calculate_student_loan_fl (\<lambda>x. x) r g plan = calculate_student_loan r g plan"
  "calculate_postgraduate_loan_fl (\<lambda>x. x) r g = calculate_postgraduate_loan r g"
  "pension_relief_fl (\<lambda>x. x) r ss pc g = pension_relief r ss pc g"
  "sl_marginal_at_fl (\<lambda>x. x) r ti g = sl_marginal_at r ti g"
  by (simp_all add: calculate_personal_allowance_fl_def calculate_personal_allowance_def
      calculate_income_tax_fl_def calculate_income_tax_def income_tax_loop_fl_exact
      calculate_ni_fl_def calculate_ni_def
      calculate_student_loan_fl_def calculate_student_loan_def
      calculate_postgraduate_loan_fl_def calculate_postgraduate_loan_def
      pension_relief_fl_def pension_relief_def
      sl_marginal_at_fl_def sl_marginal_at_def)

lemma calculate_marginal_rate_fl_exact:
  "calculate_marginal_rate_fl (\<lambda>x. x) r g ti = calculate_marginal_rate r g ti"
  unfolding calculate_marginal_rate_fl_def calculate_marginal_rate_def
    income_tax_marginal_at_fl_def income_tax_marginal_at_def parts_fl_exact
  by simp

lemma calculate_body_fl_exact:
  "calculate_body_fl (\<lambda>x. x) r ti secondary = calculate_body r ti secondary"
  unfolding calculate_body_fl_def calculate_body_def parts_fl_exact
    calculate_marginal_rate_fl_exact
  by (rule refl)

lemma calculate_fl_exact: "calculate_fl (\<lambda>x. x) r ti = calculate r ti"
  unfolding calculate_fl_def calculate_def calculate_body_fl_exact by simp

section \<open>Binary64 rounding, evaluated\<close>

lemma bitlen_eqI:
  assumes "2 ^ n \<le> m" and "m < 2 ^ Suc n"
  shows "bitlen m = int (Suc n)"
proof -
  have "bitlen m \<le> int (Suc n)"
    unfolding bitlen_le_iff_power nat_int using assms(2) by simp
  moreover have "int (Suc n) \<le> bitlen m"
    unfolding bitlen_ge_iff_power nat_int using assms(1) by simp
  ultimately show ?thesis by simp
qed

text \<open>
  Where \<open>x\<close> scaled by \<open>2 ^ k\<close> has a 53-bit integer part, \<open>rd\<close> rounds at that
  scale.
\<close>

lemma rd_eval:
  fixes k :: nat
  assumes lo: "2 ^ 52 \<le> \<bar>x\<bar> * 2 ^ k" and hi: "\<bar>x\<bar> * 2 ^ k < 2 ^ 53" and k: "k \<le> 1074"
  shows "rd x = of_int (round_half_even (x * 2 ^ k)) / 2 ^ k"
proof -
  let ?n = "\<lfloor>\<bar>x\<bar> * 2 ^ 1074\<rfloor>"
  let ?j = "1074 - k"
  have split: "\<bar>x\<bar> * 2 ^ 1074 = (\<bar>x\<bar> * 2 ^ k) * 2 ^ ?j"
    using k by (simp add: power_add [symmetric])
  have "(2::real) ^ (52 + ?j) \<le> \<bar>x\<bar> * 2 ^ 1074"
    unfolding split power_add using lo by (intro mult_right_mono) simp_all
  then have "real_of_int (2 ^ (52 + ?j)) \<le> \<bar>x\<bar> * 2 ^ 1074" by simp
  then have l: "2 ^ (52 + ?j) \<le> ?n" by (subst le_floor_iff)
  have "\<bar>x\<bar> * 2 ^ 1074 < 2 ^ (53 + ?j)"
    unfolding split power_add using hi by (intro mult_strict_right_mono) simp_all
  then have "\<bar>x\<bar> * 2 ^ 1074 < real_of_int (2 ^ (53 + ?j))" by simp
  then have h: "?n < 2 ^ Suc (52 + ?j)" by (simp add: floor_less_iff)
  from bitlen_eqI [OF l h] have "bitlen ?n = int (Suc (52 + ?j))" .
  with k have e: "max (bitlen ?n - 1127) (- 1074) = - int k"
    by simp
  show ?thesis
    unfolding rd_def Let_def e by (simp add: pow2_def)
qed

lemma rd_0: "rd 0 = 0"
  by (simp add: rd_def pow2_def round_half_even_def)

text \<open>The roundings that the run at a gross salary of 99298.73 meets.\<close>

lemma rd_value_1: "rd (1 / 5) = 3602879701896397 / 18014398509481984"
  using rd_eval [of "1 / 5" 55] by (simp add: round_half_even_def)

lemma rd_value_2: "rd (2 / 5) = 3602879701896397 / 9007199254740992"
  using rd_eval [of "2 / 5" 54] by (simp add: round_half_even_def)

lemma rd_value_3: "rd (9 / 20) = 8106479329266893 / 18014398509481984"
  using rd_eval [of "9 / 20" 54] by (simp add: round_half_even_def)

lemma rd_value_4: "rd (2 / 25) = 5764607523034235 / 72057594037927936"
  using rd_eval [of "2 / 25" 56] by (simp add: round_half_even_def)

lemma rd_value_5: "rd (1 / 50) = 5764607523034235 / 288230376151711744"
  using rd_eval [of "1 / 50" 58] by (simp add: round_half_even_def)

lemma rd_value_6: "rd (9929873 / 100) = 6823756766149345 / 68719476736"
  using rd_eval [of "9929873 / 100" 36] by (simp add: round_half_even_def)

lemma rd_value_7: "rd (6823756766149345 / 68719476736) = 6823756766149345 / 68719476736"
  using rd_eval [of "6823756766149345 / 68719476736" 36] by (simp add: round_half_even_def)

lemma rd_value_8: "rd (5959952943577825 / 68719476736) = 5959952943577825 / 68719476736"
  using rd_eval [of "5959952943577825 / 68719476736" 36] by (simp add: round_half_even_def)

lemma rd_value_9: "rd (37700) = 37700"
  using rd_eval [of "37700" 37] by (simp add: round_half_even_def)

lemma rd_value_10: "rd (33957141190373541725 / 4503599627370496) = 7540"
  using rd_eval [of "33957141190373541725 / 4503599627370496" 40] by (simp add: round_half_even_def)

lemma rd_value_11: "rd (3369228670630625 / 68719476736) = 3369228670630625 / 68719476736"
  using rd_eval [of "3369228670630625 / 68719476736" 37] by (simp add: round_half_even_def)

lemma rd_value_12: "rd (87440) = 87440"
  using rd_eval [of "87440" 36] by (simp add: round_half_even_def)

lemma rd_value_13: "rd (12138925588462460154110405358125 / 618970019642690137449562112) = 673845734126125 / 34359738368"
  using rd_eval [of "12138925588462460154110405358125 / 618970019642690137449562112" 38] by (simp add: round_half_even_def)

lemma rd_value_14: "rd (932918161420845 / 34359738368) = 932918161420845 / 34359738368"
  using rd_eval [of "932918161420845 / 34359738368" 38] by (simp add: round_half_even_def)

lemma rd_value_15: "rd (54331425904597664875 / 18014398509481984) = 3016"
  using rd_eval [of "54331425904597664875 / 18014398509481984" 41] by (simp add: round_half_even_def)

lemma rd_value_16: "rd (19422280941539935572730914446875 / 19807040628566084398385987584) = 134769146825225 / 137438953472"
  using rd_eval [of "19422280941539935572730914446875 / 19807040628566084398385987584" 43] by (simp add: round_half_even_def)

lemma rd_value_17: "rd (549285030496777 / 137438953472) = 549285030496777 / 137438953472"
  using rd_eval [of "549285030496777 / 137438953472" 41] by (simp add: round_half_even_def)

lemma rd_value_18: "rd (4280957676180157 / 137438953472) = 4280957676180157 / 137438953472"
  using rd_eval [of "4280957676180157 / 137438953472" 38] by (simp add: round_half_even_def)

lemma rd_value_19: "rd (9366555856118533 / 137438953472) = 2341638964029633 / 34359738368"
  using rd_eval [of "9366555856118533 / 137438953472" 36] by (simp add: round_half_even_def)

lemma rd_value_20: "rd (780546321343211 / 137438953472) = 780546321343211 / 137438953472"
  using rd_eval [of "780546321343211 / 137438953472" 40] by (simp add: round_half_even_def)

lemma rd_value_21: "rd (4280957676180157 / 13647513532298690) = 5650763957729223 / 18014398509481984"
  using rd_eval [of "4280957676180157 / 13647513532298690" 54] by (simp add: round_half_even_def)

lemma rd_value_22: "rd (141269098943230575 / 4503599627370496) = 8829318683951911 / 281474976710656"
  using rd_eval [of "141269098943230575 / 4503599627370496" 48] by (simp add: round_half_even_def)

lemma rd_value_23: "rd (6823825485626081 / 68719476736) = 6823825485626081 / 68719476736"
  using rd_eval [of "6823825485626081 / 68719476736" 36] by (simp add: round_half_even_def)

lemma rd_value_24: "rd (5960021663054561 / 68719476736) = 5960021663054561 / 68719476736"
  using rd_eval [of "5960021663054561 / 68719476736" 36] by (simp add: round_half_even_def)

lemma rd_value_25: "rd (121056757983718939 / 288230376151711744) = 3783023686991217 / 9007199254740992"
  using rd_eval [of "121056757983718939 / 288230376151711744" 54] by (simp add: round_half_even_def)

lemma rd_value_26: "rd (3783023686991217 / 9007199254740992) = 3783023686991217 / 9007199254740992"
  using rd_eval [of "3783023686991217 / 9007199254740992" 54] by (simp add: round_half_even_def)

lemma rd_value_27: "rd (94575592174780425 / 2251799813685248) = 5910974510923777 / 140737488355328"
  using rd_eval [of "94575592174780425 / 2251799813685248" 47] by (simp add: round_half_even_def)

lemma rd_value_28: "rd (3137 / 100) = 8829870019413279 / 281474976710656"
  using rd_eval [of "3137 / 100" 48] by (simp add: round_half_even_def)

lemma rd_value_29: "rd (42) = 42"
  using rd_eval [of "42" 47] by (simp add: round_half_even_def)

lemma rd_value_30: "rd (13647513532298689 / 137438953472) = 213242398942167 / 2147483648"
  using rd_eval [of "13647513532298689 / 137438953472" 36] by (simp add: round_half_even_def)

lemmas double_roundings = rd_0
  rd_value_1 rd_value_2 rd_value_3 rd_value_4 rd_value_5 rd_value_6
  rd_value_7 rd_value_8 rd_value_9 rd_value_10 rd_value_11 rd_value_12
  rd_value_13 rd_value_14 rd_value_15 rd_value_16 rd_value_17 rd_value_18
  rd_value_19 rd_value_20 rd_value_21 rd_value_22 rd_value_23 rd_value_24
  rd_value_25 rd_value_26 rd_value_27 rd_value_28 rd_value_29 rd_value_30

lemma calculate_double_99298:
  "calculate_fl rd double_rates (filer (rd (9929873 / 100)) False) = Inr double_run_99298"
  by (simp add: calculate_fl_def calculate_body_fl_def calculate_marginal_rate_fl_def
      income_tax_marginal_at_fl_def ni_marginal_at_def sl_marginal_at_fl_def
      calculate_personal_allowance_fl_def calculate_income_tax_fl_def calculate_ni_fl_def
      calculate_student_loan_fl_def pension_relief_fl_def band_max_or_inf_def
      taper_override_def round2_def round_half_even_def double_rates_def filer_def
      double_run_99298_def double_roundings)
section \<open>Conservation\<close>

lemma calculate_fl_InrD:
  assumes "calculate_fl rnd r ti = Inr b"
  shows "\<exists>secondary. is_secondary_job ti = Some secondary \<and>
           calculate_body_fl rnd r ti secondary = Inr b"
  using assms by (auto simp: calculate_fl_def split: if_splits option.splits)

lemma calculate_body_fl_totals:
  assumes "calculate_body_fl rnd r ti secondary = Inr b"
  shows "total_deductions b =
           rnd (rnd (rnd (rnd (total_income_tax b + ni_contributions b) +
                          student_loan_repayment b) + postgraduate_loan_repayment b) +
                (if salary_sacrifice_pension ti then 0 else pension_contribution b))"
    and "net_annual_income b = rnd (gross_income b - total_deductions b)"
  using assms
  by (auto simp: calculate_body_fl_def Let_def split: sum.splits)

text \<open>
  C2, as the claim states it, in the arithmetic of the code: on the concrete
  table, for a primary-job filer without loans or pension at a gross salary of
  99298.73, \<^verbatim>\<open>calculate\<close> returns a breakdown whose net annual income plus total
  deductions is not the gross income, neither as an exact sum nor as the double
  sum that \<^verbatim>\<open>==\<close> would compare (99298.72999999998 against 99298.73).
\<close>

theorem conservation_counterexample:
  "calculate_fl rd double_rates (filer (rd (9929873 / 100)) False) = Inr double_run_99298 \<and>
   net_annual_income double_run_99298 + total_deductions double_run_99298 \<noteq>
     gross_income double_run_99298 \<and>
   rd (net_annual_income double_run_99298 + total_deductions double_run_99298) \<noteq>
     gross_income double_run_99298 \<and>
   rd (net_annual_income double_run_99298 + total_deductions double_run_99298) =
     213242398942167 / 2147483648"
proof -
  have "rd (net_annual_income double_run_99298 + total_deductions double_run_99298) =
      213242398942167 / 2147483648"
    by (simp add: double_run_99298_def double_roundings)
  then show ?thesis
    by (simp add: calculate_double_99298) (simp add: double_run_99298_def)
qed

text \<open>
  C2, amended: in a breakdown that \<^verbatim>\<open>calculate\<close> returns, whatever the rounding
  of the arithmetic, the total of the deductions is the sum of income tax,
  National Insurance, the two loan repayments and the pension contribution (zero
  in its place under salary sacrifice), added from left to right with each sum
  rounded, and the net annual income is the gross income less the total of the
  deductions, rounded once. When the arithmetic is exact, the total is the plain
  sum and net annual income plus total deductions is the gross income.
\<close>

theorem conservation_rounded:
  "(calculate_fl rnd r ti = Inr b \<longrightarrow>
      total_deductions b =
        rnd (rnd (rnd (rnd (total_income_tax b + ni_contributions b) +
                       student_loan_repayment b) + postgraduate_loan_repayment b) +
             (if salary_sacrifice_pension ti then 0 else pension_contribution b)) \<and>
      net_annual_income b = rnd (gross_income b - total_deductions b)) \<and>
   (calculate r ti = Inr b' \<longrightarrow>
      total_deductions b' =
        total_income_tax b' + ni_contributions b' + student_loan_repayment b' +
        postgraduate_loan_repayment b' +
        (if salary_sacrifice_pension ti then 0 else pension_contribution b') \<and>
      net_annual_income b' + total_deductions b' = gross_income b')"
proof (intro conjI impI)
  assume "calculate_fl rnd r ti = Inr b"
  then obtain secondary where "calculate_body_fl rnd r ti secondary = Inr b"
    using calculate_fl_InrD by blast
  from calculate_body_fl_totals [OF this]
  show "total_deductions b =
        rnd (rnd (rnd (rnd (total_income_tax b + ni_contributions b) +
                       student_loan_repayment b) + postgraduate_loan_repayment b) +
             (if salary_sacrifice_pension ti then 0 else pension_contribution b))"
    and "net_annual_income b = rnd (gross_income b - total_deductions b)"
    by simp_all
next
  assume "calculate r ti = Inr b'"
  then have "calculate_fl (\<lambda>x. x) r ti = Inr b'"
    by (simp add: calculate_fl_exact)
  then obtain secondary where "calculate_body_fl (\<lambda>x. x) r ti secondary = Inr b'"
    using calculate_fl_InrD by blast
  from calculate_body_fl_totals [OF this]
  show "total_deductions b' =
        total_income_tax b' + ni_contributions b' + student_loan_repayment b' +
        postgraduate_loan_repayment b' +
        (if salary_sacrifice_pension ti then 0 else pension_contribution b')"
    and "net_annual_income b' + total_deductions b' = gross_income b'"
    by simp_all
qed

theorem conservation_rounded_witness:
  "calculate_fl rd double_rates (filer (rd (9929873 / 100)) False) = Inr double_run_99298 \<and>
   total_deductions double_run_99298 =
     rd (rd (rd (rd (total_income_tax double_run_99298 +
                     ni_contributions double_run_99298) +
                 student_loan_repayment double_run_99298) +
             postgraduate_loan_repayment double_run_99298) +
         (if salary_sacrifice_pension (filer (rd (9929873 / 100)) False) then 0
          else pension_contribution double_run_99298)) \<and>
   net_annual_income double_run_99298 =
     rd (gross_income double_run_99298 - total_deductions double_run_99298) \<and>
   (\<exists>b'. calculate test_rates (filer 60000 False) = Inr b' \<and>
      net_annual_income b' + total_deductions b' = gross_income b')"
  using conservation_rounded [of rd double_rates "filer (rd (9929873 / 100)) False"
      double_run_99298 "breakdown_of double_rates (filer (rd (9929873 / 100)) False) False 0 0 0"]
    conservation_rounded [of rd test_rates "filer 60000 False" double_run_99298
      "breakdown_of test_rates (filer 60000 False) False 0 0 42"]
    calculate_double_99298 calculate_test_60000
  by blast

end
